theory Spec2Isabelle
  imports Complex_Main
begin

section \<open>Numbers\<close>

text \<open>
  The scripts compute with JavaScript numbers. Finite numbers are idealised as reals
  (no rounding, no overflow). The one way the scripts leave the finite numbers is a
  division by zero, so a quotient is a \<open>jsnum\<close>: a finite number, an infinity with
  its sign (\<open>Infty True\<close> is \<open>Infinity\<close>, \<open>Infty False\<close> is \<open>-Infinity\<close>) or \<open>NaN\<close>.
  The arithmetic on \<open>jsnum\<close> follows IEEE 754 on the special values; every zero is
  taken as \<open>+0\<close> (the zero divisors of the scripts are \<open>cols - 1\<close>, \<open>rows - 1\<close>, a sum
  of amplitudes and a square root).
\<close>

datatype jsnum = Num real | Infty bool | NaN

definition js_div :: "real \<Rightarrow> real \<Rightarrow> jsnum" where
  "js_div a b =
     (if b \<noteq> 0 then Num (a / b)
      else if a = 0 then NaN
      else Infty (0 < a))"

fun js_times :: "jsnum \<Rightarrow> jsnum \<Rightarrow> jsnum" where
  "js_times (Num a) (Num b) = Num (a * b)"
| "js_times (Num a) (Infty s) = (if a = 0 then NaN else Infty (s = (0 < a)))"
| "js_times (Infty s) (Num b) = (if b = 0 then NaN else Infty (s = (0 < b)))"
| "js_times (Infty s) (Infty t) = Infty (s = t)"
| "js_times _ _ = NaN"

fun js_plus :: "jsnum \<Rightarrow> jsnum \<Rightarrow> jsnum" where
  "js_plus (Num a) (Num b) = Num (a + b)"
| "js_plus (Num a) (Infty s) = Infty s"
| "js_plus (Infty s) (Num b) = Infty s"
| "js_plus (Infty s) (Infty t) = (if s = t then Infty s else NaN)"
| "js_plus _ _ = NaN"

fun js_neg :: "jsnum \<Rightarrow> jsnum" where
  "js_neg (Num a) = Num (- a)"
| "js_neg (Infty s) = Infty (\<not> s)"
| "js_neg NaN = NaN"

definition js_minus :: "jsnum \<Rightarrow> jsnum \<Rightarrow> jsnum" where
  "js_minus a b = js_plus a (js_neg b)"

text \<open>
  \<open>Math.atan2(y, x)\<close> on finite arguments, by the quadrant of \<open>(x, y)\<close>;
  \<open>Math.atan2(0, 0)\<close> is \<open>0\<close>.
\<close>

definition atan2 :: "real \<Rightarrow> real \<Rightarrow> real" where
  "atan2 y x =
     (if 0 < x then arctan (y / x)
      else if x < 0 then (if 0 \<le> y then arctan (y / x) + pi else arctan (y / x) - pi)
      else if 0 < y then pi / 2
      else if y < 0 then - (pi / 2)
      else 0)"

section \<open>Parameter tables\<close>

text \<open>
  Each script has a module-level table \<open>params\<close>. The record has the keys that the
  functions modelled here read, over all four scripts; a script reads only the keys of
  its own table.
\<close>

record params =
  lineCount :: nat
  lineLength :: nat
  stepSize :: real
  noiseScale :: real
  noiseAmplitude :: real
  noiseStrength :: real
  margin :: real
  spawnPattern :: string
  flowOctaves :: nat
  flowLacunarity :: real
  flowPersistence :: real
  radialInfluence :: real
  spiralTwist :: real
  radialStrength :: real

text \<open>
  The tables as the scripts write them. A key that a script's table does not have is
  never read by that script's functions; it is \<open>0\<close> (or the empty string) here.
\<close>

definition params_flowfield :: params where
  "params_flowfield =
     \<lparr> lineCount = 800, lineLength = 80, stepSize = 2, noiseScale = 2 / 1000,
       noiseAmplitude = pi * 2, noiseStrength = 0, margin = 1 / 10,
       spawnPattern = ''random'', flowOctaves = 3, flowLacunarity = 2,
       flowPersistence = 1 / 2, radialInfluence = 0, spiralTwist = 0,
       radialStrength = 0 \<rparr>"

definition params_lightfast :: params where
  "params_lightfast =
     \<lparr> lineCount = 600, lineLength = 100, stepSize = 3, noiseScale = 15 / 10000,
       noiseAmplitude = pi * (3 / 2), noiseStrength = 0, margin = 8 / 100,
       spawnPattern = ''radial-burst'', flowOctaves = 0, flowLacunarity = 0,
       flowPersistence = 0, radialInfluence = 4 / 10, spiralTwist = 2 / 10,
       radialStrength = 0 \<rparr>"

definition params_export_icon :: params where
  "params_export_icon =
     \<lparr> lineCount = 5, lineLength = 35, stepSize = 12, noiseScale = 4 / 1000,
       noiseAmplitude = 0, noiseStrength = pi * (4 / 10), margin = 1 / 10,
       spawnPattern = '''', flowOctaves = 0, flowLacunarity = 0,
       flowPersistence = 0, radialInfluence = 0, spiralTwist = 0,
       radialStrength = 75 / 100 \<rparr>"

definition params_sketch_icon :: params where
  "params_sketch_icon =
     \<lparr> lineCount = 5, lineLength = 60, stepSize = 8, noiseScale = 3 / 1000,
       noiseAmplitude = 0, noiseStrength = pi * (8 / 10), margin = 12 / 100,
       spawnPattern = '''', flowOctaves = 0, flowLacunarity = 0,
       flowPersistence = 0, radialInfluence = 0, spiralTwist = 0,
       radialStrength = 6 / 10 \<rparr>"

section \<open>Noise field\<close>

text \<open>
  The flow-field sketch (the second script of \<open>unnamed/part_000\<close>) sums
  \<open>flowOctaves\<close> layers of \<open>random.noise3D\<close>, a function of the library
  \<open>canvas-sketch-util\<close> that is not part of the repository: it is the parameter
  \<open>noise3D\<close>. The loop state is \<open>(angle, amplitude, frequency, maxAmplitude)\<close>; the
  counter is the number of iterations that remain.
\<close>

fun octave_loop ::
  "(real \<Rightarrow> real \<Rightarrow> real \<Rightarrow> real) \<Rightarrow> params \<Rightarrow> real \<Rightarrow> real \<Rightarrow> real \<Rightarrow> nat \<Rightarrow>
   real \<times> real \<times> real \<times> real \<Rightarrow> real \<times> real \<times> real \<times> real" where
  "octave_loop noise3D P x y time 0 st = st"
| "octave_loop noise3D P x y time (Suc n) (angle, amplitude, frequency, maxAmplitude) =
     octave_loop noise3D P x y time n
       (angle + noise3D (x * frequency) (y * frequency) time * amplitude,
        amplitude * flowPersistence P,
        frequency * flowLacunarity P,
        maxAmplitude + amplitude)"

definition getFlowAngle_flowfield ::
  "(real \<Rightarrow> real \<Rightarrow> real \<Rightarrow> real) \<Rightarrow> params \<Rightarrow> real \<Rightarrow> real \<Rightarrow> real \<Rightarrow> jsnum" where
  "getFlowAngle_flowfield noise3D P x y time =
     (case octave_loop noise3D P x y time (flowOctaves P) (0, 1, noiseScale P, 0) of
        (angle, amplitude, frequency, maxAmplitude) \<Rightarrow>
          js_times (js_div angle maxAmplitude) (Num (noiseAmplitude P)))"

text \<open>The hand-rolled noise of \<open>export-icon.js\<close>.\<close>

definition noise2D :: "real \<Rightarrow> real \<Rightarrow> real" where
  "noise2D x y =
     (let n = sin (x * 129898 / 10000 + y * 78233 / 1000) * 437585453 / 10000
      in (n - of_int \<lfloor>n\<rfloor>) * 2 - 1)"

section \<open>Composed angle functions\<close>

text \<open>
  \<open>getFlowAngle\<close> of \<open>sketch-lightfast.js\<close>; \<open>noise\<close> is the library's
  \<open>random.noise2D\<close>.
\<close>

definition getFlowAngle_lightfast ::
  "(real \<Rightarrow> real \<Rightarrow> real) \<Rightarrow> params \<Rightarrow> real \<Rightarrow> real \<Rightarrow> real \<Rightarrow> real \<Rightarrow> jsnum" where
  "getFlowAngle_lightfast noise P x y width height =
     (let centerX = width / 2;
          centerY = height / 2;
          dx = x - centerX;
          dy = y - centerY;
          radialAngle = atan2 dy dx;
          maxDist = sqrt (centerX * centerX + centerY * centerY);
          dist = sqrt (dx * dx + dy * dy);
          normalizedDist = js_div dist maxDist;
          noiseAngle = noise (x * noiseScale P) (y * noiseScale P) * noiseAmplitude P;
          radialWeight =
            js_times (Num (radialInfluence P))
              (js_minus (Num 1) (js_times normalizedDist (Num (1 / 2))));
          spiralAngle = js_times (js_times normalizedDist (Num (spiralTwist P))) (Num pi)
      in js_plus
           (js_plus (js_times (Num radialAngle) radialWeight)
                    (js_times (Num noiseAngle) (js_minus (Num 1) radialWeight)))
           spiralAngle)"

text \<open>\<open>getFlowAngle\<close> of \<open>export-icon.js\<close>, on its own \<open>noise2D\<close>.\<close>

definition getFlowAngle_export_icon :: "params \<Rightarrow> real \<Rightarrow> real \<Rightarrow> real \<Rightarrow> real \<Rightarrow> jsnum" where
  "getFlowAngle_export_icon P x y width height =
     (let cx = width / 2;
          cy = height / 2;
          dx = x - cx;
          dy = y - cy;
          radialAngle = atan2 dy dx;
          dist = sqrt (dx * dx + dy * dy);
          maxDist = sqrt (cx * cx + cy * cy);
          normDist = js_div dist maxDist;
          noiseVal = noise2D (x * noiseScale P) (y * noiseScale P);
          noiseAngle = js_times (Num (noiseVal * noiseStrength P)) normDist
      in js_plus (Num radialAngle) (js_times noiseAngle (Num (1 - radialStrength P))))"

text \<open>\<open>getFlowAngle\<close> of \<open>sketch-icon.js\<close>; it divides by the constant 2 only.\<close>

definition getFlowAngle_sketch_icon ::
  "(real \<Rightarrow> real \<Rightarrow> real) \<Rightarrow> params \<Rightarrow> real \<Rightarrow> real \<Rightarrow> real \<Rightarrow> real \<Rightarrow> real" where
  "getFlowAngle_sketch_icon noise P x y width height =
     (let cx = width / 2;
          cy = height / 2;
          dx = x - cx;
          dy = y - cy;
          radialAngle = atan2 dy dx;
          noiseV = noise (x * noiseScale P) (y * noiseScale P);
          noiseAngle = noiseV * noiseStrength P
      in radialAngle * radialStrength P + noiseAngle * (1 - radialStrength P))"

text \<open>
  The distance of \<open>(x, y)\<close> from the centre of the canvas over the distance of a corner
  from the centre, as a real quotient (\<open>normalizedDist\<close>, \<open>normDist\<close> in the scripts).
\<close>

definition normalizedDistance :: "real \<Rightarrow> real \<Rightarrow> real \<Rightarrow> real \<Rightarrow> real" where
  "normalizedDistance x y width height =
     sqrt ((x - width / 2) * (x - width / 2) + (y - height / 2) * (y - height / 2))
       / sqrt (width / 2 * (width / 2) + height / 2 * (height / 2))"

text \<open>
  The radial blend as the specification writes it: the radial angle weighted by
  \<open>radialWeight\<close>, the noise angle weighted by \<open>1 - radialWeight\<close>, and a spiral term
  (\<open>0\<close> where there is none).
\<close>

definition radial_blend :: "real \<Rightarrow> real \<Rightarrow> real \<Rightarrow> real \<Rightarrow> real" where
  "radial_blend radialAngle radialWeight noiseAngle spiralTerm =
     radialAngle * radialWeight + noiseAngle * (1 - radialWeight) + spiralTerm"

section \<open>Flow tracer\<close>

text \<open>
  The three tracers run the same loop:
  \<^verbatim>\<open>
  for (let i = 0; i < params.lineLength; i++) {
    points.push({ x, y });
    const angle = getFlowAngle(x, y, ...);
    x += Math.cos(angle) * params.stepSize;
    y += Math.sin(angle) * params.stepSize;
    if (x < minX || x > maxX || y < minY || y > maxY) break;
  }
  return points;
  \<close>
  The cursor \<open>(x, y)\<close> starts at finite coordinates. \<open>Math.cos\<close> and \<open>Math.sin\<close> of
  a number that is not finite are \<open>NaN\<close>, and \<open>NaN\<close> is absorbing for \<open>*\<close> and \<open>+=\<close>, so
  after a step with such an angle both coordinates are \<open>NaN\<close>: the cursor is a finite
  point \<open>Pt x y\<close> or the point \<open>NaNPt\<close>. Every comparison with \<open>NaN\<close> is false.
\<close>

datatype jspoint = Pt real real | NaNPt

record bounds =
  minX :: real
  maxX :: real
  minY :: real
  maxY :: real

fun outside :: "bounds \<Rightarrow> jspoint \<Rightarrow> bool" where
  "outside b (Pt x y) = (x < minX b \<or> x > maxX b \<or> y < minY b \<or> y > maxY b)"
| "outside b NaNPt = False"

fun in_bounds :: "bounds \<Rightarrow> jspoint \<Rightarrow> bool" where
  "in_bounds b (Pt x y) = (minX b \<le> x \<and> x \<le> maxX b \<and> minY b \<le> y \<and> y \<le> maxY b)"
| "in_bounds b NaNPt = False"

text \<open>
  The call \<open>getFlowAngle(x, y, ...)\<close> at the cursor. At a finite cursor the noise is
  sampled at finite coordinates. At the cursor \<open>(NaN, NaN)\<close> the scripts differ:
  \<^item> \<open>random.noise2D\<close> and \<open>random.noise3D\<close> of \<open>canvas-sketch-util\<close> refuse a
    coordinate that is not finite and throw a \<open>TypeError\<close>. The flow-field sketch
    calls \<open>noise3D\<close> once for each octave, so it throws unless \<open>flowOctaves\<close> is 0,
    where it returns \<open>(0 / 0) * noiseAmplitude\<close>; \<open>sketch-lightfast.js\<close> calls
    \<open>noise2D\<close> once and throws.
  \<^item> \<open>noise2D\<close> of \<open>export-icon.js\<close> is plain arithmetic and returns \<open>NaN\<close>, and
    so does its \<open>getFlowAngle\<close>.
\<close>

datatype error = TypeError

definition getFlowAngle_flowfield_at ::
  "(real \<Rightarrow> real \<Rightarrow> real \<Rightarrow> real) \<Rightarrow> params \<Rightarrow> jspoint \<Rightarrow> error + jsnum" where
  "getFlowAngle_flowfield_at noise3D P c =
     (case c of
        Pt x y \<Rightarrow> Inr (getFlowAngle_flowfield noise3D P x y 0)
      | NaNPt \<Rightarrow>
          if flowOctaves P = 0 then Inr (js_times (js_div 0 0) (Num (noiseAmplitude P)))
          else Inl TypeError)"

definition getFlowAngle_lightfast_at ::
  "(real \<Rightarrow> real \<Rightarrow> real) \<Rightarrow> params \<Rightarrow> real \<Rightarrow> real \<Rightarrow> jspoint \<Rightarrow> error + jsnum" where
  "getFlowAngle_lightfast_at noise P width height c =
     (case c of
        Pt x y \<Rightarrow> Inr (getFlowAngle_lightfast noise P x y width height)
      | NaNPt \<Rightarrow> Inl TypeError)"

definition getFlowAngle_export_icon_at ::
  "params \<Rightarrow> real \<Rightarrow> real \<Rightarrow> jspoint \<Rightarrow> error + jsnum" where
  "getFlowAngle_export_icon_at P width height c =
     (case c of
        Pt x y \<Rightarrow> Inr (getFlowAngle_export_icon P x y width height)
      | NaNPt \<Rightarrow> Inr NaN)"

text \<open>The two \<open>+=\<close> lines: the cursor moved by \<open>step\<close> along \<open>angle\<close>.\<close>

fun move :: "jsnum \<Rightarrow> real \<Rightarrow> jspoint \<Rightarrow> jspoint" where
  "move (Num angle) step (Pt x y) = Pt (x + cos angle * step) (y + sin angle * step)"
| "move _ step _ = NaNPt"

definition advance :: "(jspoint \<Rightarrow> error + jsnum) \<Rightarrow> real \<Rightarrow> jspoint \<Rightarrow> error + jspoint" where
  "advance angleFn step c =
     (case angleFn c of
        Inl e \<Rightarrow> Inl e
      | Inr angle \<Rightarrow> Inr (move angle step c))"

text \<open>
  \<open>trace_loop angleFn step b n c\<close>: the points pushed by the \<open>n\<close> iterations that
  remain, from the cursor \<open>c\<close>, or the error thrown on the way (then the function
  returns nothing).
\<close>

fun trace_loop ::
  "(jspoint \<Rightarrow> error + jsnum) \<Rightarrow> real \<Rightarrow> bounds \<Rightarrow> nat \<Rightarrow> jspoint \<Rightarrow> error + jspoint list" where
  "trace_loop angleFn step b 0 c = Inr []"
| "trace_loop angleFn step b (Suc n) c =
     (case advance angleFn step c of
        Inl e \<Rightarrow> Inl e
      | Inr c' \<Rightarrow>
          if outside b c' then Inr [c]
          else (case trace_loop angleFn step b n c' of
                  Inl e \<Rightarrow> Inl e
                | Inr points \<Rightarrow> Inr (c # points)))"

text \<open>
  \<open>traceFlowLine(startX, startY, width, height, margin)\<close> of the flow-field sketch;
  its argument \<open>margin\<close> is written \<open>margin'\<close>, apart from the key of the table.
\<close>

definition bounds_flowfield :: "real \<Rightarrow> real \<Rightarrow> real \<Rightarrow> bounds" where
  "bounds_flowfield width height margin' =
     \<lparr> minX = width * margin', maxX = width * (1 - margin'),
       minY = height * margin', maxY = height * (1 - margin') \<rparr>"

definition traceFlowLine_flowfield ::
  "(real \<Rightarrow> real \<Rightarrow> real \<Rightarrow> real) \<Rightarrow> params \<Rightarrow> real \<Rightarrow> real \<Rightarrow> real \<Rightarrow> real \<Rightarrow> real \<Rightarrow>
   error + jspoint list" where
  "traceFlowLine_flowfield noise3D P startX startY width height margin' =
     trace_loop (getFlowAngle_flowfield_at noise3D P) (stepSize P)
       (bounds_flowfield width height margin') (lineLength P) (Pt startX startY)"

text \<open>\<open>traceFlowLine(startX, startY, width, height)\<close> of \<open>sketch-lightfast.js\<close>.\<close>

definition traceFlowLine_lightfast ::
  "(real \<Rightarrow> real \<Rightarrow> real) \<Rightarrow> params \<Rightarrow> real \<Rightarrow> real \<Rightarrow> real \<Rightarrow> real \<Rightarrow> error + jspoint list" where
  "traceFlowLine_lightfast noise P startX startY width height =
     trace_loop (getFlowAngle_lightfast_at noise P width height) (stepSize P)
       (bounds_flowfield width height (margin P)) (lineLength P) (Pt startX startY)"

text \<open>
  \<open>traceLine(startX, startY, width, height)\<close> of \<open>export-icon.js\<close>: the inset is
  \<open>width * params.margin\<close> on both axes.
\<close>

definition bounds_icon :: "params \<Rightarrow> real \<Rightarrow> real \<Rightarrow> bounds" where
  "bounds_icon P width height =
     (let m = width * margin P
      in \<lparr> minX = m, maxX = width - m, minY = m, maxY = height - m \<rparr>)"

definition traceLine ::
  "params \<Rightarrow> real \<Rightarrow> real \<Rightarrow> real \<Rightarrow> real \<Rightarrow> error + jspoint list" where
  "traceLine P startX startY width height =
     trace_loop (getFlowAngle_export_icon_at P width height) (stepSize P)
       (bounds_icon P width height) (lineLength P) (Pt startX startY)"

text \<open>
  The cursor after \<open>k\<close> executions of the loop body's two \<open>+=\<close> lines, the bounds
  check left aside, or the error thrown before; \<open>exits b r\<close> says that \<open>r\<close> is a
  cursor outside the bounds.
\<close>

fun cursor_after ::
  "(jspoint \<Rightarrow> error + jsnum) \<Rightarrow> real \<Rightarrow> nat \<Rightarrow> jspoint \<Rightarrow> error + jspoint" where
  "cursor_after angleFn step 0 c = Inr c"
| "cursor_after angleFn step (Suc k) c =
     (case advance angleFn step c of
        Inl e \<Rightarrow> Inl e
      | Inr c' \<Rightarrow> cursor_after angleFn step k c')"

definition exits :: "bounds \<Rightarrow> error + jspoint \<Rightarrow> bool" where
  "exits b r = (case r of Inl e \<Rightarrow> False | Inr c \<Rightarrow> outside b c)"

section \<open>Spawn positions\<close>

text \<open>
  \<open>seededRandom\<close> of \<open>export-icon.js\<close>: the module-level \<open>seed\<close> is the state. For
  \<open>seed < 2^32\<close> the product stays below \<open>2^53\<close>, so the arithmetic is exact on
  JavaScript numbers.
\<close>

definition seededRandom :: "nat \<Rightarrow> real \<times> nat" where
  "seededRandom seed =
     (let seed' = (seed * 1664525 + 1013904223) mod 4294967296
      in (real seed' / 4294967296, seed'))"

text \<open>
  The sketches draw from \<open>random.value()\<close> and \<open>random.gaussian(mean, sd)\<close> of
  \<open>canvas-sketch-util\<close>, which keep a hidden generator state. Both are parameters
  here, passing a state \<open>'g\<close> (\<open>rvalue\<close> stands for \<open>random.value\<close>).

  \<open>push_loop body count (positions, g)\<close> is the loop
  \<^verbatim>\<open>for (let i = 0; i < count; i++) positions.push(body(i))\<close>.
\<close>

fun push_loop :: "(nat \<Rightarrow> 'g \<Rightarrow> 'a \<times> 'g) \<Rightarrow> nat \<Rightarrow> 'a list \<times> 'g \<Rightarrow> 'a list \<times> 'g" where
  "push_loop body 0 st = st"
| "push_loop body (Suc n) st =
     (case push_loop body n st of
        (positions, g) \<Rightarrow> (case body n g of (p, g') \<Rightarrow> (positions @ [p], g')))"

text \<open>
  \<open>generateSpawnPositions(width, height, count, margin)\<close> of the flow-field sketch. The
  grid case divides by \<open>cols - 1\<close> and \<open>rows - 1\<close>, so a position is a pair of
  \<open>jsnum\<close>. \<open>rows\<close> is read in the loop body only, where \<open>1 \<le> count\<close> and so
  \<open>1 \<le> cols\<close>; \<open>i / count\<close> in the circle case likewise.
\<close>

definition generateSpawnPositions_flowfield ::
  "('g \<Rightarrow> real \<times> 'g) \<Rightarrow> (real \<Rightarrow> real \<Rightarrow> 'g \<Rightarrow> real \<times> 'g) \<Rightarrow> params \<Rightarrow>
   real \<Rightarrow> real \<Rightarrow> nat \<Rightarrow> real \<Rightarrow> 'g \<Rightarrow> (jsnum \<times> jsnum) list \<times> 'g" where
  "generateSpawnPositions_flowfield rvalue gaussian P width height count margin' g0 =
     (let innerWidth = width * (1 - margin' * 2);
          innerHeight = height * (1 - margin' * 2);
          offsetX = width * margin';
          offsetY = height * margin'
      in if spawnPattern P = ''grid'' then
           (let cols = \<lceil>sqrt (real count)\<rceil>;
                rows = \<lceil>real count / real_of_int cols\<rceil>
            in push_loop
                 (\<lambda>i g.
                    (let col = int i mod cols;
                         row = \<lfloor>real i / real_of_int cols\<rfloor>
                     in ((js_plus (Num offsetX)
                            (js_times (js_div (real_of_int col) (real_of_int (cols - 1)))
                               (Num innerWidth)),
                          js_plus (Num offsetY)
                            (js_times (js_div (real_of_int row) (real_of_int (rows - 1)))
                               (Num innerHeight))),
                         g)))
                 count ([], g0))
         else if spawnPattern P = ''center'' then
           (let centerX = width / 2;
                centerY = height / 2;
                maxRadius = min innerWidth innerHeight / 2
            in push_loop
                 (\<lambda>i g.
                    (case rvalue g of (u, g1) \<Rightarrow>
                       (let r = u * maxRadius
                        in (case rvalue g1 of (v, g2) \<Rightarrow>
                              (let theta = v * pi * 2
                               in ((Num (centerX + cos theta * r),
                                    Num (centerY + sin theta * r)),
                                   g2))))))
                 count ([], g0))
         else if spawnPattern P = ''circle'' then
           (let cx = width / 2;
                cy = height / 2;
                radius = min innerWidth innerHeight * (4 / 10)
            in push_loop
                 (\<lambda>i g.
                    (let angle = (real i / real count) * pi * 2
                     in (case gaussian 0 10 g of (jitter, g1) \<Rightarrow>
                           ((Num (cx + cos angle * (radius + jitter)),
                             Num (cy + sin angle * (radius + jitter))),
                            g1))))
                 count ([], g0))
         else
           push_loop
             (\<lambda>i g.
                (case rvalue g of (u, g1) \<Rightarrow>
                   (case rvalue g1 of (v, g2) \<Rightarrow>
                      ((Num (offsetX + u * innerWidth), Num (offsetY + v * innerHeight)),
                       g2))))
             count ([], g0))"

text \<open>
  \<open>generateSpawnPositions(width, height, count)\<close> of \<open>sketch-lightfast.js\<close>. A position
  is \<open>(x, y, ring)\<close>. The inner loop of a ring runs while
  \<open>i < particleCount && positions.length < count\<close>; in its body \<open>1 \<le> particleCount\<close>.
\<close>

function ring_loop ::
  "(real \<Rightarrow> real \<Rightarrow> 'g \<Rightarrow> real \<times> 'g) \<Rightarrow> nat \<Rightarrow> real \<Rightarrow> real \<Rightarrow> real \<Rightarrow> nat \<Rightarrow> nat \<Rightarrow> nat \<Rightarrow>
   (real \<times> real \<times> nat) list \<times> 'g \<Rightarrow> (real \<times> real \<times> nat) list \<times> 'g" where
  "ring_loop gaussian count centerX centerY ringRadius ring particleCount i (positions, g) =
     (if i < particleCount \<and> length positions < count then
        (case gaussian 0 (1 / 10) g of (a, g1) \<Rightarrow>
           (let angle = (real i / real particleCount) * pi * 2 + a
            in (case gaussian 0 (ringRadius * (1 / 10)) g1 of (jitter, g2) \<Rightarrow>
                  ring_loop gaussian count centerX centerY ringRadius ring particleCount (Suc i)
                    (positions @ [(centerX + cos angle * (ringRadius + jitter),
                                   centerY + sin angle * (ringRadius + jitter),
                                   ring)],
                     g2))))
      else (positions, g))"
  by pat_completeness auto
termination
  by (relation "measure (\<lambda>(gaussian, count, centerX, centerY, ringRadius, ring, particleCount, i, st).
                  particleCount - i)") auto

declare ring_loop.simps [simp del]

definition particleCount_of :: "nat \<Rightarrow> nat \<Rightarrow> nat" where
  "particleCount_of particlesPerRing ring =
     nat \<lfloor>real particlesPerRing * (1 + real ring * (3 / 10))\<rfloor>"

definition generateSpawnPositions_lightfast ::
  "('g \<Rightarrow> real \<times> 'g) \<Rightarrow> (real \<Rightarrow> real \<Rightarrow> 'g \<Rightarrow> real \<times> 'g) \<Rightarrow> params \<Rightarrow>
   real \<Rightarrow> real \<Rightarrow> nat \<Rightarrow> 'g \<Rightarrow> (real \<times> real \<times> nat) list \<times> 'g" where
  "generateSpawnPositions_lightfast rvalue gaussian P width height count g0 =
     (let centerX = width / 2;
          centerY = height / 2;
          maxRadius = min width height * (1 / 2 - margin P)
      in if spawnPattern P = ''radial-burst'' then
           (let rings = 12;
                particlesPerRing = count div rings;
                st1 = fold
                   (\<lambda>ring st.
                      (let ringRadius = maxRadius * (real (ring + 1) / real rings) powr (7 / 10);
                           particleCount = particleCount_of particlesPerRing ring
                       in ring_loop gaussian count centerX centerY ringRadius ring
                            particleCount 0 st))
                   [0..<rings] ([], g0);
                centerCount = nat \<lfloor>real count * (1 / 10)\<rfloor>
            in (case push_loop
                   (\<lambda>i g.
                      (case rvalue g of (u, g1) \<Rightarrow>
                         (let r = u * maxRadius * (3 / 10)
                          in (case rvalue g1 of (v, g2) \<Rightarrow>
                                (let theta = v * pi * 2
                                 in ((centerX + cos theta * r, centerY + sin theta * r, 0),
                                     g2))))))
                   centerCount st1 of
                  (positions, g) \<Rightarrow> (take count positions, g)))
         else ([], g0))"

section \<open>Finite angles\<close>

lemma js_div_nonzero: "b \<noteq> 0 \<Longrightarrow> js_div a b = Num (a / b)"
  by (simp add: js_div_def)

lemma octave_loop_closed:
  "octave_loop noise3D P x y t n (a, amp, f, m) =
     (a + (\<Sum>i<n. noise3D (x * (f * flowLacunarity P ^ i)) (y * (f * flowLacunarity P ^ i)) t
                     * (amp * flowPersistence P ^ i)),
      amp * flowPersistence P ^ n,
      f * flowLacunarity P ^ n,
      m + (\<Sum>i<n. amp * flowPersistence P ^ i))"
proof (induction n arbitrary: a amp f m)
  case 0
  show ?case by simp
next
  case (Suc n)
  show ?case
    by (simp add: Suc.IH sum.lessThan_Suc_shift mult.assoc add.assoc del: sum.lessThan_Suc)
qed

lemma getFlowAngle_flowfield_eq:
  "getFlowAngle_flowfield noise3D P x y t =
     js_times
       (js_div
          (\<Sum>i<flowOctaves P. noise3D (x * (noiseScale P * flowLacunarity P ^ i))
                                     (y * (noiseScale P * flowLacunarity P ^ i)) t
                                * flowPersistence P ^ i)
          (\<Sum>i<flowOctaves P. flowPersistence P ^ i))
       (Num (noiseAmplitude P))"
  by (simp add: getFlowAngle_flowfield_def octave_loop_closed)

lemma getFlowAngle_flowfield_finite:
  "(\<Sum>i<flowOctaves P. flowPersistence P ^ i) \<noteq> 0 \<Longrightarrow>
   \<exists>a. getFlowAngle_flowfield noise3D P x y t = Num a"
  by (simp add: getFlowAngle_flowfield_eq js_div_nonzero)

lemma maxDist_nonzero:
  fixes w h :: real
  assumes "w \<noteq> 0 \<or> h \<noteq> 0"
  shows "sqrt (w / 2 * (w / 2) + h / 2 * (h / 2)) \<noteq> 0"
proof -
  have "0 \<le> w / 2 * (w / 2)" "0 \<le> h / 2 * (h / 2)"
    by simp_all
  moreover from assms have "0 < w / 2 * (w / 2) \<or> 0 < h / 2 * (h / 2)"
    by (auto simp: zero_less_mult_iff)
  ultimately have "0 < w / 2 * (w / 2) + h / 2 * (h / 2)"
    by linarith
  then have "0 < sqrt (w / 2 * (w / 2) + h / 2 * (h / 2))"
    by (rule real_sqrt_gt_zero)
  then show ?thesis
    by linarith
qed

lemma getFlowAngle_lightfast_formula:
  assumes "width \<noteq> 0 \<or> height \<noteq> 0"
  shows "getFlowAngle_lightfast noise P x y width height =
     Num (atan2 (y - height / 2) (x - width / 2)
            * (radialInfluence P * (1 - normalizedDistance x y width height * (1 / 2)))
          + noise (x * noiseScale P) (y * noiseScale P) * noiseAmplitude P
            * (1 - radialInfluence P * (1 - normalizedDistance x y width height * (1 / 2)))
          + normalizedDistance x y width height * spiralTwist P * pi)"
  unfolding getFlowAngle_lightfast_def Let_def normalizedDistance_def
  by (simp only: js_div_nonzero[OF maxDist_nonzero[OF assms]] js_times.simps js_plus.simps
      js_minus_def js_neg.simps) simp

lemma getFlowAngle_export_icon_formula:
  assumes "width \<noteq> 0 \<or> height \<noteq> 0"
  shows "getFlowAngle_export_icon P x y width height =
     Num (atan2 (y - height / 2) (x - width / 2)
          + noise2D (x * noiseScale P) (y * noiseScale P) * noiseStrength P
            * normalizedDistance x y width height * (1 - radialStrength P))"
  unfolding getFlowAngle_export_icon_def Let_def normalizedDistance_def
  by (simp only: js_div_nonzero[OF maxDist_nonzero[OF assms]] js_times.simps js_plus.simps)

lemma zero_noise_angle:
  "getFlowAngle_flowfield (\<lambda>x y t. 0) params_flowfield x y t = Num 0"
  by (simp add: getFlowAngle_flowfield_eq params_flowfield_def js_div_def eval_nat_numeral)

section \<open>Angles that are not finite\<close>

lemma js_times_Num: "js_times a b = Num r \<Longrightarrow> \<exists>x y. a = Num x \<and> b = Num y"
  by (cases a; cases b) (auto split: if_splits)

lemma js_plus_Num: "js_plus a b = Num r \<Longrightarrow> \<exists>x y. a = Num x \<and> b = Num y"
  by (cases a; cases b) (auto split: if_splits)

lemma js_div_zero: "js_div a 0 \<noteq> Num r"
  by (simp add: js_div_def)

lemma getFlowAngle_flowfield_not_finite:
  assumes "(\<Sum>i<flowOctaves P. flowPersistence P ^ i) = 0"
  shows "getFlowAngle_flowfield noise3D P x y t \<noteq> Num a"
proof
  assume "getFlowAngle_flowfield noise3D P x y t = Num a"
  then obtain q where "js_div
          (\<Sum>i<flowOctaves P. noise3D (x * (noiseScale P * flowLacunarity P ^ i))
                                     (y * (noiseScale P * flowLacunarity P ^ i)) t
                                * flowPersistence P ^ i)
          (\<Sum>i<flowOctaves P. flowPersistence P ^ i) = Num q"
    unfolding getFlowAngle_flowfield_eq using js_times_Num by blast
  then show False
    unfolding assms by (simp add: js_div_zero)
qed

lemma getFlowAngle_lightfast_not_finite:
  "getFlowAngle_lightfast noise P x y 0 0 \<noteq> Num a"
proof
  assume "getFlowAngle_lightfast noise P x y 0 0 = Num a"
  then obtain q where
    "js_times (js_times (js_div (sqrt ((x - 0 / 2) * (x - 0 / 2) + (y - 0 / 2) * (y - 0 / 2)))
                 (sqrt (0 / 2 * (0 / 2) + 0 / 2 * (0 / 2))))
        (Num (spiralTwist P))) (Num pi) = Num q"
    unfolding getFlowAngle_lightfast_def Let_def using js_plus_Num by blast
  then obtain q' where
    "js_div (sqrt ((x - 0 / 2) * (x - 0 / 2) + (y - 0 / 2) * (y - 0 / 2)))
       (sqrt (0 / 2 * (0 / 2) + 0 / 2 * (0 / 2))) = Num q'"
    using js_times_Num by blast
  then show False
    by (simp add: js_div_def split: if_splits)
qed

section \<open>Properties of the tracer loop\<close>

lemma advance_Pt:
  "angleFn (Pt x y) = Inr (Num a) \<Longrightarrow>
   advance angleFn step (Pt x y) = Inr (Pt (x + cos a * step) (y + sin a * step))"
  by (simp add: advance_def)

lemma advance_not_finite:
  "angleFn c = Inr v \<Longrightarrow> \<forall>a. v \<noteq> Num a \<Longrightarrow> advance angleFn step c = Inr NaNPt"
  by (cases v) (simp_all add: advance_def)

lemma advance_NaNPt:
  "advance angleFn step NaNPt = (case angleFn NaNPt of Inl e \<Rightarrow> Inl e | Inr v \<Rightarrow> Inr NaNPt)"
  by (simp add: advance_def split: sum.splits)

lemma trace_loop_length_le: "trace_loop angleFn step b n c = Inr ps \<Longrightarrow> length ps \<le> n"
proof (induction n arbitrary: c ps)
  case 0
  then show ?case by simp
next
  case (Suc n)
  then show ?case
    by (fastforce split: sum.splits if_splits)
qed

lemma trace_loop_hd:
  "0 < n \<Longrightarrow> trace_loop angleFn step b n c = Inr ps \<Longrightarrow> ps \<noteq> [] \<and> hd ps = c"
  by (cases n) (auto split: sum.splits if_splits)

lemma not_outside_iff: "\<not> outside b (Pt x y) \<longleftrightarrow> in_bounds b (Pt x y)"
  by auto

lemma in_bounds_Pt: "in_bounds b c \<Longrightarrow> \<exists>x y. c = Pt x y"
  by (cases c) auto

lemma trace_loop_in_bounds:
  assumes thr: "angleFn NaNPt = Inl e"
  shows "in_bounds b c \<Longrightarrow> trace_loop angleFn step b n c = Inr ps \<Longrightarrow> p \<in> set ps \<Longrightarrow>
         in_bounds b p"
proof (induction n arbitrary: c ps)
  case 0
  then show ?case by simp
next
  case (Suc n)
  from Suc.prems(2) obtain c' where adv: "advance angleFn step c = Inr c'"
    by (auto split: sum.splits)
  show ?case
  proof (cases "outside b c'")
    case True
    with Suc.prems adv show ?thesis by auto
  next
    case False
    with Suc.prems(2) adv obtain ps' where
      tr: "trace_loop angleFn step b n c' = Inr ps'" and ps: "ps = c # ps'"
      by (auto split: sum.splits)
    show ?thesis
    proof (cases "p = c")
      case True
      with Suc.prems(1) show ?thesis by simp
    next
      case pc: False
      with Suc.prems(3) ps have mem: "p \<in> set ps'" by simp
      show ?thesis
      proof (cases c')
        case (Pt x' y')
        with False have "in_bounds b c'"
          by (simp only: not_outside_iff)
        then show ?thesis
          using tr mem by (rule Suc.IH)
      next
        case NaNPt
        from mem have "ps' \<noteq> []" by auto
        with tr NaNPt obtain m where "n = Suc m"
          by (cases n) auto
        with tr NaNPt thr show ?thesis
          by (simp add: advance_NaNPt)
      qed
    qed
  qed
qed

lemma trace_loop_returns_finite:
  assumes fin: "\<forall>x y. \<exists>a. angleFn (Pt x y) = Inr (Num a)"
  shows "\<exists>ps. trace_loop angleFn step b n (Pt x y) = Inr ps"
proof (induction n arbitrary: x y)
  case 0
  show ?case by simp
next
  case (Suc n)
  from fin obtain a where a: "angleFn (Pt x y) = Inr (Num a)" by blast
  from Suc.IH[of "x + cos a * step" "y + sin a * step"] show ?case
    by (auto simp: advance_def a)
qed

lemma trace_loop_returns_total:
  assumes tot: "\<forall>c. \<exists>v. angleFn c = Inr v"
  shows "\<exists>ps. trace_loop angleFn step b n c = Inr ps"
proof (induction n arbitrary: c)
  case 0
  show ?case by simp
next
  case (Suc n)
  from tot obtain v where v: "angleFn c = Inr v" by blast
  from Suc.IH[of "move v step c"] show ?case
    by (auto simp: advance_def v)
qed

lemma trace_loop_returns_short:
  assumes "n \<le> 1" and "angleFn c = Inr v"
  shows "\<exists>ps. trace_loop angleFn step b n c = Inr ps"
proof (cases n)
  case 0
  then show ?thesis by simp
next
  case (Suc m)
  with assms(1) have "m = 0" by simp
  with Suc assms(2) show ?thesis
    by (simp add: advance_def)
qed

lemma trace_loop_throws:
  assumes "angleFn (Pt x y) = Inr v" and "\<forall>a. v \<noteq> Num a" and "angleFn NaNPt = Inl e"
    and "2 \<le> n"
  shows "trace_loop angleFn step b n (Pt x y) = Inl e"
proof -
  from \<open>2 \<le> n\<close> obtain m where n: "n = Suc (Suc m)"
    by (metis Suc_le_D numeral_2_eq_2 Suc_le_mono)
  have "advance angleFn step (Pt x y) = Inr NaNPt"
    using assms(1,2) by (rule advance_not_finite)
  moreover have "advance angleFn step NaNPt = Inl e"
    by (simp add: advance_NaNPt assms(3))
  ultimately show ?thesis
    unfolding n by simp
qed

lemma cursor_after_shift:
  "advance angleFn step c = Inr c' \<Longrightarrow>
   cursor_after angleFn step (Suc k) c = cursor_after angleFn step k c'"
  by simp

lemma trace_loop_length_full:
  "trace_loop f s b n c = Inr ps \<Longrightarrow>
   length ps = n \<longleftrightarrow> (\<forall>k. 1 \<le> k \<and> k < n \<longrightarrow> \<not> exits b (cursor_after f s k c))"
proof (induction n arbitrary: c ps)
  case 0
  then show ?case by simp
next
  case (Suc n)
  from Suc.prems obtain c' where adv: "advance f s c = Inr c'"
    by (auto split: sum.splits)
  have shift: "cursor_after f s (Suc k) c = cursor_after f s k c'" for k
    using adv by simp
  show ?case
  proof (cases "n = 0")
    case True
    with Suc.prems adv show ?thesis
      by (auto split: if_splits sum.splits)
  next
    case n: False
    have one: "1 \<le> (1::nat) \<and> 1 < Suc n"
      using n by simp
    show ?thesis
    proof (cases "outside b c'")
      case True
      with Suc.prems adv have "ps = [c]" by simp
      moreover have "exits b (cursor_after f s 1 c)"
        using True adv by (simp add: exits_def)
      ultimately show ?thesis
        using n one by auto
    next
      case False
      with Suc.prems adv obtain ps' where
        tr: "trace_loop f s b n c' = Inr ps'" and ps: "ps = c # ps'"
        by (auto split: sum.splits)
      have "(\<forall>k. 1 \<le> k \<and> k < Suc n \<longrightarrow> \<not> exits b (cursor_after f s k c)) \<longleftrightarrow>
            (\<forall>k. 1 \<le> k \<and> k < n \<longrightarrow> \<not> exits b (cursor_after f s k c'))"
        (is "?L \<longleftrightarrow> ?R")
      proof
        assume L: ?L
        show ?R
        proof (intro allI impI)
          fix k assume "1 \<le> k \<and> k < n"
          then have "1 \<le> Suc k \<and> Suc k < Suc n" by simp
          with L have "\<not> exits b (cursor_after f s (Suc k) c)" by blast
          then show "\<not> exits b (cursor_after f s k c')"
            unfolding shift .
        qed
      next
        assume R: ?R
        show ?L
        proof (intro allI impI)
          fix k assume k: "1 \<le> k \<and> k < Suc n"
          then obtain j where j: "k = Suc j" by (cases k) auto
          show "\<not> exits b (cursor_after f s k c)"
          proof (cases "j = 0")
            case True
            with False adv j show ?thesis
              by (simp add: exits_def)
          next
            case j0: False
            with k j have "1 \<le> j \<and> j < n" by simp
            with R have "\<not> exits b (cursor_after f s j c')" by blast
            then show ?thesis
              unfolding j shift .
          qed
        qed
      qed
      with Suc.IH[OF tr] ps show ?thesis
        by simp
    qed
  qed
qed



lemma trace_loop_length:
  "trace_loop f s b n c = Inr ps \<longrightarrow>
     length ps \<le> n
     \<and> (length ps = n \<longleftrightarrow> (\<forall>k. 1 \<le> k \<and> k < n \<longrightarrow> \<not> exits b (cursor_after f s k c)))"
proof
  assume t: "trace_loop f s b n c = Inr ps"
  then have "length ps \<le> n"
    by (rule trace_loop_length_le)
  moreover from t have
    "length ps = n \<longleftrightarrow> (\<forall>k. 1 \<le> k \<and> k < n \<longrightarrow> \<not> exits b (cursor_after f s k c))"
    by (rule trace_loop_length_full)
  ultimately show "length ps \<le> n
     \<and> (length ps = n \<longleftrightarrow> (\<forall>k. 1 \<le> k \<and> k < n \<longrightarrow> \<not> exits b (cursor_after f s k c)))"
    by simp
qed

lemma trace_loop_fixed:
  "advance f s c = Inr c \<Longrightarrow> \<not> outside b c \<Longrightarrow> trace_loop f s b n c = Inr (replicate n c)"
  by (induction n) simp_all

lemma trace_loop_NaNPt:
  "angleFn NaNPt = Inr v \<Longrightarrow> trace_loop angleFn step b n NaNPt = Inr (replicate n NaNPt)"
  by (rule trace_loop_fixed) (simp_all add: advance_NaNPt)

section \<open>When the tracers return\<close>

lemma traceFlowLine_flowfield_returns:
  "(\<exists>ps. traceFlowLine_flowfield noise3D P sx sy w h m = Inr ps) \<longleftrightarrow>
     (\<Sum>i<flowOctaves P. flowPersistence P ^ i) \<noteq> 0 \<or> flowOctaves P = 0 \<or> lineLength P \<le> 1"
proof (cases "(\<Sum>i<flowOctaves P. flowPersistence P ^ i) \<noteq> 0")
  case True
  then have "\<forall>x y. \<exists>a. getFlowAngle_flowfield_at noise3D P (Pt x y) = Inr (Num a)"
    by (simp add: getFlowAngle_flowfield_at_def getFlowAngle_flowfield_finite)
  then have "\<exists>ps. traceFlowLine_flowfield noise3D P sx sy w h m = Inr ps"
    unfolding traceFlowLine_flowfield_def by (rule trace_loop_returns_finite)
  with True show ?thesis by simp
next
  case zero: False
  show ?thesis
  proof (cases "flowOctaves P = 0")
    case True
    then have "\<forall>c. \<exists>v. getFlowAngle_flowfield_at noise3D P c = Inr v"
      by (simp add: getFlowAngle_flowfield_at_def split: jspoint.splits)
    then have "\<exists>ps. traceFlowLine_flowfield noise3D P sx sy w h m = Inr ps"
      unfolding traceFlowLine_flowfield_def by (rule trace_loop_returns_total)
    with True show ?thesis by simp
  next
    case oct: False
    show ?thesis
    proof (cases "lineLength P \<le> 1")
      case True
      have "getFlowAngle_flowfield_at noise3D P (Pt sx sy)
          = Inr (getFlowAngle_flowfield noise3D P sx sy 0)"
        by (simp add: getFlowAngle_flowfield_at_def)
      with True have "\<exists>ps. traceFlowLine_flowfield noise3D P sx sy w h m = Inr ps"
        unfolding traceFlowLine_flowfield_def by (rule trace_loop_returns_short)
      with True show ?thesis by simp
    next
      case False
      then have two: "2 \<le> lineLength P" by simp
      have "getFlowAngle_flowfield_at noise3D P (Pt sx sy)
          = Inr (getFlowAngle_flowfield noise3D P sx sy 0)"
        by (simp add: getFlowAngle_flowfield_at_def)
      moreover have "\<forall>a. getFlowAngle_flowfield noise3D P sx sy 0 \<noteq> Num a"
        using zero by (simp add: getFlowAngle_flowfield_not_finite)
      moreover have "getFlowAngle_flowfield_at noise3D P NaNPt = Inl TypeError"
        using oct by (simp add: getFlowAngle_flowfield_at_def)
      ultimately have "traceFlowLine_flowfield noise3D P sx sy w h m = Inl TypeError"
        unfolding traceFlowLine_flowfield_def using two by (rule trace_loop_throws)
      with zero oct False show ?thesis by simp
    qed
  qed
qed

lemma traceFlowLine_flowfield_throws:
  assumes "(\<Sum>i<flowOctaves P. flowPersistence P ^ i) = 0" and "1 \<le> flowOctaves P"
    and "2 \<le> lineLength P"
  shows "traceFlowLine_flowfield noise3D P sx sy w h m = Inl TypeError"
proof -
  from assms have "\<not> (\<exists>ps. traceFlowLine_flowfield noise3D P sx sy w h m = Inr ps)"
    by (simp only: traceFlowLine_flowfield_returns) simp
  then show ?thesis
    by (cases "traceFlowLine_flowfield noise3D P sx sy w h m") (auto intro: error.exhaust)
qed

lemma traceFlowLine_lightfast_returns:
  "(\<exists>ps. traceFlowLine_lightfast noise P sx sy w h = Inr ps) \<longleftrightarrow>
     w \<noteq> 0 \<or> h \<noteq> 0 \<or> lineLength P \<le> 1"
proof (cases "w \<noteq> 0 \<or> h \<noteq> 0")
  case True
  then have "\<forall>x y. \<exists>a. getFlowAngle_lightfast_at noise P w h (Pt x y) = Inr (Num a)"
    by (simp add: getFlowAngle_lightfast_at_def getFlowAngle_lightfast_formula)
  then have "\<exists>ps. traceFlowLine_lightfast noise P sx sy w h = Inr ps"
    unfolding traceFlowLine_lightfast_def by (rule trace_loop_returns_finite)
  with True show ?thesis by blast
next
  case False
  then have wh: "w = 0" "h = 0" by simp_all
  have at: "getFlowAngle_lightfast_at noise P 0 0 (Pt sx sy)
      = Inr (getFlowAngle_lightfast noise P sx sy 0 0)"
    by (simp add: getFlowAngle_lightfast_at_def)
  show ?thesis
  proof (cases "lineLength P \<le> 1")
    case True
    then have "\<exists>ps. traceFlowLine_lightfast noise P sx sy 0 0 = Inr ps"
      unfolding traceFlowLine_lightfast_def using at by (rule trace_loop_returns_short)
    with True wh show ?thesis by simp
  next
    case long: False
    then have two: "2 \<le> lineLength P" by simp
    have "\<forall>a. getFlowAngle_lightfast noise P sx sy 0 0 \<noteq> Num a"
      by (simp add: getFlowAngle_lightfast_not_finite)
    moreover have "getFlowAngle_lightfast_at noise P 0 0 NaNPt = Inl TypeError"
      by (simp add: getFlowAngle_lightfast_at_def)
    ultimately have "traceFlowLine_lightfast noise P sx sy 0 0 = Inl TypeError"
      unfolding traceFlowLine_lightfast_def using at two
      by (intro trace_loop_throws) simp_all
    with long wh show ?thesis by simp
  qed
qed

lemma traceFlowLine_lightfast_throws:
  assumes "2 \<le> lineLength P"
  shows "traceFlowLine_lightfast noise P sx sy 0 0 = Inl TypeError"
proof -
  from assms have "\<not> (\<exists>ps. traceFlowLine_lightfast noise P sx sy 0 0 = Inr ps)"
    by (simp only: traceFlowLine_lightfast_returns) simp
  then show ?thesis
    by (cases "traceFlowLine_lightfast noise P sx sy 0 0") (auto intro: error.exhaust)
qed

lemma traceLine_returns: "\<exists>ps. traceLine P sx sy w h = Inr ps"
proof -
  have "\<forall>c. \<exists>v. getFlowAngle_export_icon_at P w h c = Inr v"
    by (simp add: getFlowAngle_export_icon_at_def split: jspoint.splits)
  then show ?thesis
    unfolding traceLine_def by (rule trace_loop_returns_total)
qed

section \<open>Traces along the angle 0\<close>

lemma cursor_after_zero_angle:
  assumes "\<forall>x y. angleFn (Pt x y) = Inr (Num 0)"
  shows "cursor_after angleFn step k (Pt x y) = Inr (Pt (x + real k * step) y)"
proof (induction k arbitrary: x)
  case 0
  show ?case by simp
next
  case (Suc k)
  have "advance angleFn step (Pt x y) = Inr (Pt (x + step) y)"
    using advance_Pt[of angleFn x y 0 step] assms by simp
  then show ?case
    by (simp add: Suc.IH algebra_simps)
qed

lemma flowfield_zero_noise_cursor:
  "cursor_after (getFlowAngle_flowfield_at (\<lambda>x y t. 0) params_flowfield) 2 k (Pt x0 y0)
     = Inr (Pt (x0 + real k * 2) y0)"
  by (rule cursor_after_zero_angle) (simp add: getFlowAngle_flowfield_at_def zero_noise_angle)

lemma flowfield_zero_noise_returns:
  "\<exists>ps. traceFlowLine_flowfield (\<lambda>x y t. 0) params_flowfield x0 y0 w h m = Inr ps"
proof -
  have "(\<Sum>i<flowOctaves params_flowfield. flowPersistence params_flowfield ^ i) \<noteq> 0"
  proof -
    have sel: "flowOctaves params_flowfield = Suc (Suc (Suc 0))"
      "flowPersistence params_flowfield = 1 / 2"
      by (simp_all add: params_flowfield_def)
    show ?thesis unfolding sel by simp
  qed
  then show ?thesis
    by (simp only: traceFlowLine_flowfield_returns simp_thms)
qed

lemma flowfield_zero_noise_length:
  assumes "1024 / 10 \<le> x0 + 2" and "x0 + 158 \<le> 1024 * (9 / 10)"
  shows "\<exists>ps. traceFlowLine_flowfield (\<lambda>x y t. 0) params_flowfield x0 512 1024 1024 (1 / 10) = Inr ps
           \<and> length ps = 80"
proof -
  obtain ps where ps: "traceFlowLine_flowfield (\<lambda>x y t. 0) params_flowfield x0 512 1024 1024 (1 / 10)
      = Inr ps"
    using flowfield_zero_noise_returns by blast
  then have tr: "trace_loop (getFlowAngle_flowfield_at (\<lambda>x y t. 0) params_flowfield) 2
       (bounds_flowfield 1024 1024 (1 / 10)) 80 (Pt x0 512) = Inr ps"
    by (simp add: traceFlowLine_flowfield_def params_flowfield_def)
  have "\<not> exits (bounds_flowfield 1024 1024 (1 / 10))
          (cursor_after (getFlowAngle_flowfield_at (\<lambda>x y t. 0) params_flowfield) 2 k (Pt x0 512))"
    if "1 \<le> k \<and> k < 80" for k
  proof -
    from that have "1 \<le> real k" "real k \<le> 79" by simp_all
    with assms show ?thesis
      by (simp add: flowfield_zero_noise_cursor bounds_flowfield_def exits_def)
  qed
  then have "length ps = 80"
    by (simp only: trace_loop_length_full[OF tr]) simp
  with ps show ?thesis by blast
qed

section \<open>Claims about the tracer\<close>

text \<open>
  C1, as amended. Whenever a tracer returns a polyline from a start within the bounds,
  every point of the polyline lies within the bounds, provided the flow-field sketch
  has at least one octave: the first cursor position outside the bounds ends the loop
  before it is pushed, and a cursor that is \<open>NaN\<close> makes the noise library throw
  before a second such point is pushed. (\<open>sketch-lightfast.js\<close> needs no proviso.)
\<close>

theorem traceFlowLine_in_bounds:
  "(1 \<le> flowOctaves P
      \<and> in_bounds (bounds_flowfield w h m) (Pt sx sy)
      \<and> traceFlowLine_flowfield noise3D P sx sy w h m = Inr ps \<longrightarrow>
    (\<forall>p \<in> set ps. in_bounds (bounds_flowfield w h m) p))
   \<and> (in_bounds (bounds_flowfield w h (margin P)) (Pt sx sy)
      \<and> traceFlowLine_lightfast noise P sx sy w h = Inr ps \<longrightarrow>
    (\<forall>p \<in> set ps. in_bounds (bounds_flowfield w h (margin P)) p))"
proof (intro conjI impI ballI)
  fix p
  assume a: "1 \<le> flowOctaves P
      \<and> in_bounds (bounds_flowfield w h m) (Pt sx sy)
      \<and> traceFlowLine_flowfield noise3D P sx sy w h m = Inr ps"
    and p: "p \<in> set ps"
  from a have thr: "getFlowAngle_flowfield_at noise3D P NaNPt = Inl TypeError"
    by (simp add: getFlowAngle_flowfield_at_def)
  from a have "in_bounds (bounds_flowfield w h m) (Pt sx sy)"
    and "trace_loop (getFlowAngle_flowfield_at noise3D P) (stepSize P)
       (bounds_flowfield w h m) (lineLength P) (Pt sx sy) = Inr ps"
    by (simp_all add: traceFlowLine_flowfield_def)
  then show "in_bounds (bounds_flowfield w h m) p"
    using p by (rule trace_loop_in_bounds[where angleFn = "getFlowAngle_flowfield_at noise3D P", OF thr])
next
  fix p
  assume a: "in_bounds (bounds_flowfield w h (margin P)) (Pt sx sy)
      \<and> traceFlowLine_lightfast noise P sx sy w h = Inr ps"
    and p: "p \<in> set ps"
  have thr: "getFlowAngle_lightfast_at noise P w h NaNPt = Inl TypeError"
    by (simp add: getFlowAngle_lightfast_at_def)
  from a have "in_bounds (bounds_flowfield w h (margin P)) (Pt sx sy)"
    and "trace_loop (getFlowAngle_lightfast_at noise P w h) (stepSize P)
       (bounds_flowfield w h (margin P)) (lineLength P) (Pt sx sy) = Inr ps"
    by (simp_all add: traceFlowLine_lightfast_def)
  then show "in_bounds (bounds_flowfield w h (margin P)) p"
    using p
    by (rule trace_loop_in_bounds[where angleFn = "getFlowAngle_lightfast_at noise P w h", OF thr])
qed

theorem traceFlowLine_in_bounds_witness:
  "(\<exists>ps. traceFlowLine_flowfield (\<lambda>x y t. 0) params_flowfield 512 512 1024 1024 (1 / 10) = Inr ps
        \<and> ps \<noteq> [] \<and> in_bounds (bounds_flowfield 1024 1024 (1 / 10)) (last ps))
   \<and> (\<exists>ps. traceFlowLine_lightfast (\<lambda>x y. 0) params_lightfast 512 512 1024 1024 = Inr ps
        \<and> ps \<noteq> [] \<and> in_bounds (bounds_flowfield 1024 1024 (margin params_lightfast)) (last ps))"
proof -
  obtain ps1 where ps1:
    "traceFlowLine_flowfield (\<lambda>x y t. 0) params_flowfield 512 512 1024 1024 (1 / 10) = Inr ps1"
    using flowfield_zero_noise_returns by blast
  obtain ps2 where ps2:
    "traceFlowLine_lightfast (\<lambda>x y. 0) params_lightfast 512 512 1024 1024 = Inr ps2"
    using traceFlowLine_lightfast_returns[of "\<lambda>x y. 0" params_lightfast 512 512 1024 1024]
    by auto
  have n1: "ps1 \<noteq> []"
    using ps1 unfolding traceFlowLine_flowfield_def
    by (rule trace_loop_hd[THEN conjunct1, rotated]) (simp add: params_flowfield_def)
  have n2: "ps2 \<noteq> []"
    using ps2 unfolding traceFlowLine_lightfast_def
    by (rule trace_loop_hd[THEN conjunct1, rotated]) (simp add: params_lightfast_def)
  have o: "1 \<le> flowOctaves params_flowfield"
    by (simp add: params_flowfield_def)
  have b1: "in_bounds (bounds_flowfield 1024 1024 (1 / 10)) (Pt 512 512)"
    by (simp add: bounds_flowfield_def)
  have b2: "in_bounds (bounds_flowfield 1024 1024 (margin params_lightfast)) (Pt 512 512)"
    by (simp add: bounds_flowfield_def params_lightfast_def)
  have "in_bounds (bounds_flowfield 1024 1024 (1 / 10)) (last ps1)"
    using traceFlowLine_in_bounds
        [of params_flowfield 1024 1024 "1 / 10" 512 512 "\<lambda>x y t. 0" ps1, THEN conjunct1]
      o b1 ps1 last_in_set[OF n1]
    by blast
  moreover have "in_bounds (bounds_flowfield 1024 1024 (margin params_lightfast)) (last ps2)"
    using traceFlowLine_in_bounds
        [of params_lightfast 1024 1024 _ 512 512 _ ps2 "\<lambda>x y. 0", THEN conjunct2]
      b2 ps2 last_in_set[OF n2]
    by blast
  ultimately show ?thesis
    using ps1 ps2 n1 n2 by blast
qed

text \<open>
  C1 as stated fails with \<open>flowOctaves = 0\<close>: the flow-field sketch then never calls
  the noise library and divides \<open>0\<close> by \<open>0\<close>. The angle is \<open>NaN\<close>, the cursor becomes
  \<open>(NaN, NaN)\<close>, no comparison with \<open>NaN\<close> holds, so the loop never breaks and pushes
  79 such points after the start, whatever the noise.
\<close>

theorem polyline_with_NaN_points:
  "in_bounds (bounds_flowfield 1024 1024 (1 / 10)) (Pt 512 512)
   \<and> (\<forall>noise3D. traceFlowLine_flowfield noise3D (params_flowfield\<lparr>flowOctaves := 0\<rparr>)
          512 512 1024 1024 (1 / 10)
        = Inr (Pt 512 512 # replicate 79 NaNPt))
   \<and> \<not> in_bounds (bounds_flowfield 1024 1024 (1 / 10)) NaNPt"
proof -
  have a1: "getFlowAngle_flowfield_at noise3D (params_flowfield\<lparr>flowOctaves := 0\<rparr>) c = Inr NaN"
    for noise3D c
    by (cases c) (simp_all add: getFlowAngle_flowfield_at_def getFlowAngle_flowfield_def js_div_def)
  have t: "trace_loop f s b (Suc n) (Pt x y) = Inr (Pt x y # replicate n NaNPt)"
    if "\<forall>c. f c = Inr NaN" for f s b n x y
  proof -
    from that have "advance f s (Pt x y) = Inr NaNPt"
      by (simp add: advance_def)
    moreover from that have "trace_loop f s b n NaNPt = Inr (replicate n NaNPt)"
      by (intro trace_loop_NaNPt) simp
    ultimately show ?thesis by simp
  qed
  have l1: "lineLength (params_flowfield\<lparr>flowOctaves := 0\<rparr>) = Suc 79"
    by (simp add: params_flowfield_def)
  have "traceFlowLine_flowfield noise3D (params_flowfield\<lparr>flowOctaves := 0\<rparr>)
        512 512 1024 1024 (1 / 10) = Inr (Pt 512 512 # replicate 79 NaNPt)" for noise3D
    unfolding traceFlowLine_flowfield_def l1 by (rule t) (simp add: a1)
  then show ?thesis
    by (simp add: bounds_flowfield_def)
qed




text \<open>
  C2, as amended. Whenever a tracer returns, the polyline has at most \<open>lineLength\<close>
  points, and exactly \<open>lineLength\<close> points if and only if the cursor is not outside the
  bounds after each of its first \<open>lineLength - 1\<close> steps. Neither the start nor the
  position after the last step is constrained: the last iteration ends the loop whether
  it breaks or not.
\<close>

theorem trace_length_bound:
  "(traceFlowLine_flowfield noise3D P sx sy w h m = Inr ps \<longrightarrow>
      length ps \<le> lineLength P
      \<and> (length ps = lineLength P \<longleftrightarrow>
           (\<forall>k. 1 \<le> k \<and> k < lineLength P \<longrightarrow>
              \<not> exits (bounds_flowfield w h m)
                  (cursor_after (getFlowAngle_flowfield_at noise3D P) (stepSize P) k (Pt sx sy)))))
   \<and> (traceFlowLine_lightfast noise P sx sy w h = Inr ps \<longrightarrow>
      length ps \<le> lineLength P
      \<and> (length ps = lineLength P \<longleftrightarrow>
           (\<forall>k. 1 \<le> k \<and> k < lineLength P \<longrightarrow>
              \<not> exits (bounds_flowfield w h (margin P))
                  (cursor_after (getFlowAngle_lightfast_at noise P w h) (stepSize P) k (Pt sx sy)))))
   \<and> (traceLine P sx sy w h = Inr ps \<longrightarrow>
      length ps \<le> lineLength P
      \<and> (length ps = lineLength P \<longleftrightarrow>
           (\<forall>k. 1 \<le> k \<and> k < lineLength P \<longrightarrow>
              \<not> exits (bounds_icon P w h)
                  (cursor_after (getFlowAngle_export_icon_at P w h) (stepSize P) k (Pt sx sy)))))"
  unfolding traceFlowLine_flowfield_def traceFlowLine_lightfast_def traceLine_def
  by (intro conjI trace_loop_length)

theorem trace_length_bound_witness:
  "\<exists>ps. traceFlowLine_flowfield (\<lambda>x y t. 0) params_flowfield 512 512 1024 1024 (1 / 10) = Inr ps
       \<and> length ps = 80"
proof -
  obtain ps where ps:
    "traceFlowLine_flowfield (\<lambda>x y t. 0) params_flowfield 512 512 1024 1024 (1 / 10) = Inr ps"
    using flowfield_zero_noise_returns by blast
  have "\<not> exits (bounds_flowfield 1024 1024 (1 / 10))
          (cursor_after (getFlowAngle_flowfield_at (\<lambda>x y t. 0) params_flowfield)
             (stepSize params_flowfield) k (Pt 512 512))"
    if "1 \<le> k \<and> k < lineLength params_flowfield" for k
  proof -
    from that have "1 \<le> real k" "real k \<le> 79"
      by (simp_all add: params_flowfield_def)
    moreover have "stepSize params_flowfield = 2"
      by (simp add: params_flowfield_def)
    ultimately show ?thesis
      by (simp add: flowfield_zero_noise_cursor bounds_flowfield_def exits_def)
  qed
  with ps have "length ps = lineLength params_flowfield"
    using trace_length_bound[of "\<lambda>x y t. 0" params_flowfield 512 512 1024 1024 "1 / 10" ps]
    by blast
  then have "length ps = 80"
    by (simp add: params_flowfield_def)
  with ps show ?thesis by blast
qed

text \<open>
  C2 as stated fails: the polyline can have \<open>lineLength\<close> points although the cursor
  leaves the bounds. From \<open>(763, 512)\<close>, with angle 0 and step 2, the 80 recorded points
  end at \<open>x = 921\<close>, and the 80th step takes the cursor to \<open>x = 923 > 921.6\<close>.
\<close>

theorem full_length_although_cursor_exits:
  "(\<exists>ps. traceFlowLine_flowfield (\<lambda>x y t. 0) params_flowfield 763 512 1024 1024 (1 / 10) = Inr ps
        \<and> length ps = lineLength params_flowfield)
   \<and> exits (bounds_flowfield 1024 1024 (1 / 10))
       (cursor_after (getFlowAngle_flowfield_at (\<lambda>x y t. 0) params_flowfield)
          (stepSize params_flowfield) (lineLength params_flowfield) (Pt 763 512))"
proof -
  have sel: "lineLength params_flowfield = 80" "stepSize params_flowfield = 2"
    by (simp_all add: params_flowfield_def)
  have "\<exists>ps. traceFlowLine_flowfield (\<lambda>x y t. 0) params_flowfield 763 512 1024 1024 (1 / 10) = Inr ps
        \<and> length ps = 80"
    by (rule flowfield_zero_noise_length) simp_all
  moreover have "exits (bounds_flowfield 1024 1024 (1 / 10))
       (cursor_after (getFlowAngle_flowfield_at (\<lambda>x y t. 0) params_flowfield) 2 80 (Pt 763 512))"
    by (simp add: flowfield_zero_noise_cursor exits_def bounds_flowfield_def)
  ultimately show ?thesis
    unfolding sel by blast
qed

section \<open>Claims about the noise field\<close>

lemma noise2D_range: "- 1 \<le> noise2D x y \<and> noise2D x y < 1"
proof -
  define n where "n = sin (x * 129898 / 10000 + y * 78233 / 1000) * 437585453 / 10000"
  have f: "n - of_int \<lfloor>n\<rfloor> = frac n"
    by (simp add: frac_def)
  have "0 \<le> frac n" and "frac n < 1"
    by (rule frac_ge_0, rule frac_lt_1)
  then have "- 1 \<le> frac n * 2 - 1 \<and> frac n * 2 - 1 < 1"
    by simp
  then show ?thesis
    by (simp only: noise2D_def Let_def n_def[symmetric] f)
qed

lemma octave_sum_bound:
  fixes p :: real
  assumes n: "\<forall>i. \<bar>f i\<bar> \<le> 1" and p: "0 \<le> p"
  shows "\<bar>\<Sum>i<k. f i * p ^ i\<bar> \<le> (\<Sum>i<k. p ^ i)"
proof -
  have "\<bar>\<Sum>i<k. f i * p ^ i\<bar> \<le> (\<Sum>i<k. \<bar>f i * p ^ i\<bar>)"
    by (rule sum_abs)
  also have "\<dots> \<le> (\<Sum>i<k. p ^ i)"
  proof (rule sum_mono)
    fix i
    have "\<bar>f i * p ^ i\<bar> = \<bar>f i\<bar> * p ^ i"
      using p by (simp add: abs_mult)
    also have "\<dots> \<le> 1 * p ^ i"
      using n p by (intro mult_right_mono) simp_all
    finally show "\<bar>f i * p ^ i\<bar> \<le> p ^ i" by simp
  qed
  finally show ?thesis .
qed

lemma amplitude_sum_ge_1:
  fixes p :: real
  assumes "1 \<le> k" and "0 \<le> p"
  shows "1 \<le> (\<Sum>i<k. p ^ i)"
proof -
  from \<open>1 \<le> k\<close> obtain j where k: "k = Suc j" by (cases k) auto
  have "0 \<le> (\<Sum>i<j. p ^ Suc i)"
    using \<open>0 \<le> p\<close> by (intro sum_nonneg) simp
  then show ?thesis
    unfolding k by (simp add: sum.lessThan_Suc_shift del: sum.lessThan_Suc power_Suc)
qed

text \<open>
  C3. The multi-octave flow angle is the sum over the octaves \<open>i < flowOctaves\<close> of
  \<open>noise3D(x * s * l^i, y * s * l^i, t) * p^i\<close>, divided by the sum of the \<open>p^i\<close> and
  multiplied by the output amplitude, with \<open>s\<close> the noise scale, \<open>l\<close> the lacunarity
  and \<open>p\<close> the persistence. The division and the product are the script's own; where
  the amplitudes do not sum to zero the result is that finite number.
\<close>

theorem getFlowAngle_octave_formula:
  "getFlowAngle_flowfield noise3D P x y t =
     js_times
       (js_div
          (\<Sum>i<flowOctaves P. noise3D (x * noiseScale P * flowLacunarity P ^ i)
                                     (y * noiseScale P * flowLacunarity P ^ i) t
                                * flowPersistence P ^ i)
          (\<Sum>i<flowOctaves P. flowPersistence P ^ i))
       (Num (noiseAmplitude P))
   \<and> ((\<Sum>i<flowOctaves P. flowPersistence P ^ i) \<noteq> 0 \<longrightarrow>
        getFlowAngle_flowfield noise3D P x y t =
          Num ((\<Sum>i<flowOctaves P. noise3D (x * noiseScale P * flowLacunarity P ^ i)
                                          (y * noiseScale P * flowLacunarity P ^ i) t
                                     * flowPersistence P ^ i)
               / (\<Sum>i<flowOctaves P. flowPersistence P ^ i)
               * noiseAmplitude P))"
  by (simp add: getFlowAngle_flowfield_eq js_div_nonzero mult.assoc)

theorem getFlowAngle_octave_formula_witness:
  "getFlowAngle_flowfield (\<lambda>x y t. t) params_flowfield 1 1 (1 / 2) = Num pi"
proof -
  have sel: "flowOctaves params_flowfield = Suc (Suc (Suc 0))"
    "flowPersistence params_flowfield = 1 / 2" "noiseAmplitude params_flowfield = pi * 2"
    by (simp_all add: params_flowfield_def)
  have "(\<Sum>i<flowOctaves params_flowfield. flowPersistence params_flowfield ^ i) \<noteq> 0"
    by (simp add: sel)
  then show ?thesis
    using getFlowAngle_octave_formula[of "\<lambda>x y t. t" params_flowfield 1 1 "1 / 2"]
    by (simp add: sel js_div_def)
qed

text \<open>
  C8, as amended. With at least one octave, a persistence that is not negative, an
  output amplitude that is not negative and a noise primitive with values in
  \<open>[-1, 1]\<close>, the multi-octave flow angle is a finite number in
  \<open>[-noiseAmplitude, noiseAmplitude]\<close>, whatever the number of octaves.
\<close>

theorem getFlowAngle_bounded:
  assumes "\<forall>x y t. - 1 \<le> noise3D x y t \<and> noise3D x y t \<le> 1"
    and "1 \<le> flowOctaves P"
    and "0 \<le> flowPersistence P"
    and "0 \<le> noiseAmplitude P"
  shows "\<exists>a. getFlowAngle_flowfield noise3D P x y t = Num a
            \<and> - noiseAmplitude P \<le> a \<and> a \<le> noiseAmplitude P"
proof -
  let ?S = "\<Sum>i<flowOctaves P. noise3D (x * (noiseScale P * flowLacunarity P ^ i))
                                     (y * (noiseScale P * flowLacunarity P ^ i)) t
                                * flowPersistence P ^ i"
  let ?M = "\<Sum>i<flowOctaves P. flowPersistence P ^ i"
  have M: "1 \<le> ?M"
    using assms(2,3) by (rule amplitude_sum_ge_1)
  have "\<forall>i. \<bar>noise3D (x * (noiseScale P * flowLacunarity P ^ i))
                     (y * (noiseScale P * flowLacunarity P ^ i)) t\<bar> \<le> 1"
    using assms(1) by (simp add: abs_le_iff)
  then have S: "\<bar>?S\<bar> \<le> ?M"
    using assms(3) by (rule octave_sum_bound)
  from M S have q: "- 1 \<le> ?S / ?M" "?S / ?M \<le> 1"
    by (simp_all add: abs_le_iff pos_le_divide_eq pos_divide_le_eq)
  have "- 1 * noiseAmplitude P \<le> ?S / ?M * noiseAmplitude P"
    using q(1) assms(4) by (rule mult_right_mono)
  moreover have "?S / ?M * noiseAmplitude P \<le> 1 * noiseAmplitude P"
    using q(2) assms(4) by (rule mult_right_mono)
  ultimately have "- noiseAmplitude P \<le> ?S / ?M * noiseAmplitude P
      \<and> ?S / ?M * noiseAmplitude P \<le> noiseAmplitude P"
    by simp
  moreover from M have "getFlowAngle_flowfield noise3D P x y t = Num (?S / ?M * noiseAmplitude P)"
    by (simp add: getFlowAngle_flowfield_eq js_div_nonzero)
  ultimately show ?thesis by blast
qed

theorem getFlowAngle_bounded_witness:
  "\<exists>a. getFlowAngle_flowfield (\<lambda>x y t. noise2D x y) params_flowfield 300 200 0 = Num a
       \<and> - (pi * 2) \<le> a \<and> a \<le> pi * 2"
proof -
  have "\<forall>x y t::real. - 1 \<le> noise2D x y \<and> noise2D x y \<le> 1"
    using noise2D_range by (simp add: less_imp_le)
  moreover have "1 \<le> flowOctaves params_flowfield" "0 \<le> flowPersistence params_flowfield"
    "0 \<le> noiseAmplitude params_flowfield"
    by (simp_all add: params_flowfield_def)
  ultimately show ?thesis
    using getFlowAngle_bounded[of "\<lambda>x y t. noise2D x y" params_flowfield 300 200 0]
    by (simp add: params_flowfield_def)
qed

text \<open>
  C8 as stated fails for a negative persistence: the layer amplitudes then cancel in the
  normalising sum. With two octaves and persistence \<open>-1/2\<close> the sum of amplitudes is
  \<open>1/2\<close>, and a noise that is \<open>1\<close> at the first sample and \<open>-1\<close> at the second gives
  \<open>(1 + 1/2) / (1/2) = 3\<close> times the amplitude.
\<close>

theorem negative_persistence_exceeds_amplitude:
  "(\<forall>x y t. - 1 \<le> (if x < 1 then 1 else - 1 :: real) \<and> (if x < 1 then 1 else - 1 :: real) \<le> 1)
   \<and> getFlowAngle_flowfield (\<lambda>x y t. if x < 1 then 1 else - 1)
        (params_flowfield\<lparr>flowOctaves := 2, flowPersistence := - (1 / 2)\<rparr>) 300 0 0
       = Num (3 * (pi * 2))
   \<and> \<not> 3 * (pi * 2) \<le> noiseAmplitude (params_flowfield\<lparr>flowOctaves := 2, flowPersistence := - (1 / 2)\<rparr>)"
proof -
  have "getFlowAngle_flowfield (\<lambda>x y t. if x < 1 then 1 else - 1)
        (params_flowfield\<lparr>flowOctaves := 2, flowPersistence := - (1 / 2)\<rparr>) 300 0 0
       = Num (3 * (pi * 2))"
    by (simp add: getFlowAngle_flowfield_eq params_flowfield_def eval_nat_numeral js_div_def)
  moreover have "\<not> 3 * (pi * 2) \<le> pi * 2"
    using pi_gt_zero by linarith
  ultimately show ?thesis
    by (simp add: params_flowfield_def)
qed

section \<open>Claims about the composed angle functions\<close>

lemma atan2_up: "0 < y \<Longrightarrow> atan2 y 0 = pi / 2"
  by (simp add: atan2_def)

lemma normalizedDistance_centre: "normalizedDistance (w / 2) (h / 2) w h = 0"
  by (simp add: normalizedDistance_def)

text \<open>
  C7, as amended. On a canvas that is not 0 x 0, \<open>getFlowAngle\<close> of
  \<open>sketch-lightfast.js\<close> is the radial blend with
  \<open>radialWeight = radialInfluence * (1 - normalizedDistance / 2)\<close>, the noise angle
  \<open>noise * noiseAmplitude\<close> and the spiral term \<open>normalizedDistance * spiralTwist * pi\<close>;
  \<open>getFlowAngle\<close> of \<open>sketch-icon.js\<close> is the radial blend with the constant weight
  \<open>radialStrength\<close> and no spiral term. \<open>getFlowAngle\<close> of \<open>export-icon.js\<close> is not a
  blend: it is the full radial angle plus
  \<open>noise2D * noiseStrength * normalizedDistance * (1 - radialStrength)\<close>.
\<close>

theorem getFlowAngle_radial_blend:
  "((width \<noteq> 0 \<or> height \<noteq> 0) \<longrightarrow>
      getFlowAngle_lightfast noise P x y width height =
        Num (radial_blend (atan2 (y - height / 2) (x - width / 2))
               (radialInfluence P * (1 - normalizedDistance x y width height * (1 / 2)))
               (noise (x * noiseScale P) (y * noiseScale P) * noiseAmplitude P)
               (normalizedDistance x y width height * spiralTwist P * pi)))
   \<and> getFlowAngle_sketch_icon noise P x y width height =
        radial_blend (atan2 (y - height / 2) (x - width / 2)) (radialStrength P)
          (noise (x * noiseScale P) (y * noiseScale P) * noiseStrength P) 0
   \<and> ((width \<noteq> 0 \<or> height \<noteq> 0) \<longrightarrow>
      getFlowAngle_export_icon P x y width height =
        Num (atan2 (y - height / 2) (x - width / 2)
             + noise2D (x * noiseScale P) (y * noiseScale P) * noiseStrength P
               * normalizedDistance x y width height * (1 - radialStrength P)))"
  by (simp add: getFlowAngle_lightfast_formula getFlowAngle_export_icon_formula
      getFlowAngle_sketch_icon_def radial_blend_def Let_def)

theorem getFlowAngle_radial_blend_witness:
  "getFlowAngle_lightfast (\<lambda>x y. 0) params_lightfast 512 512 1024 1024 = Num 0
   \<and> getFlowAngle_export_icon params_export_icon 256 256 512 512 = Num 0"
proof -
  have "(1024::real) \<noteq> 0 \<or> (1024::real) \<noteq> 0" "(512::real) \<noteq> 0 \<or> (512::real) \<noteq> 0"
    by simp_all
  moreover have "normalizedDistance 512 512 1024 1024 = 0" "normalizedDistance 256 256 512 512 = 0"
    using normalizedDistance_centre[of 1024 1024] normalizedDistance_centre[of 512 512]
    by simp_all
  moreover have "atan2 0 0 = 0"
    by (simp add: atan2_def)
  ultimately show ?thesis
    using getFlowAngle_radial_blend[of 1024 1024 "\<lambda>x y. 0" params_lightfast 512 512]
      getFlowAngle_radial_blend[of 512 512 _ params_export_icon 256 256]
    by (simp add: radial_blend_def)
qed

text \<open>
  C7 as stated fails for \<open>export-icon.js\<close>, whose radial angle carries no weight.
  Straight below the centre of the 512 x 512 canvas the radial angle is \<open>pi / 2\<close>; the
  script returns it whole, where the blend with weight \<open>radialStrength = 0.75\<close> and the
  script's own noise angle has \<open>pi / 2 * 0.75\<close>.
\<close>

theorem export_icon_radial_unweighted:
  "getFlowAngle_export_icon params_export_icon 256 512 512 512 \<noteq>
     Num (radial_blend (atan2 (512 - 512 / 2) (256 - 512 / 2))
            (radialStrength params_export_icon)
            (noise2D (256 * noiseScale params_export_icon) (512 * noiseScale params_export_icon)
               * noiseStrength params_export_icon * normalizedDistance 256 512 512 512)
            0)"
proof -
  define N where "N = noise2D (256 * noiseScale params_export_icon)
      (512 * noiseScale params_export_icon)
    * noiseStrength params_export_icon * normalizedDistance 256 512 512 512"
  have a: "atan2 256 0 = pi / 2"
    by (rule atan2_up) simp
  have r: "radialStrength params_export_icon = 3 / 4"
    by (simp add: params_export_icon_def)
  have "(512::real) \<noteq> 0 \<or> (512::real) \<noteq> 0"
    by simp
  then have "getFlowAngle_export_icon params_export_icon 256 512 512 512 =
      Num (atan2 (512 - 512 / 2) (256 - 512 / 2)
           + noise2D (256 * noiseScale params_export_icon) (512 * noiseScale params_export_icon)
             * noiseStrength params_export_icon * normalizedDistance 256 512 512 512
             * (1 - radialStrength params_export_icon))"
    by (rule getFlowAngle_export_icon_formula)
  then have l: "getFlowAngle_export_icon params_export_icon 256 512 512 512 =
      Num (pi / 2 + N * (1 / 4))"
    by (simp add: a r N_def)
  have "radial_blend (atan2 (512 - 512 / 2) (256 - 512 / 2))
            (radialStrength params_export_icon)
            (noise2D (256 * noiseScale params_export_icon) (512 * noiseScale params_export_icon)
               * noiseStrength params_export_icon * normalizedDistance 256 512 512 512)
            0 = pi / 2 * (3 / 4) + N * (1 / 4)"
    by (simp add: radial_blend_def a r N_def)
  moreover have "pi / 2 + N * (1 / 4) \<noteq> pi / 2 * (3 / 4) + N * (1 / 4)"
    using pi_gt_zero by simp
  ultimately show ?thesis
    by (simp only: l jsnum.inject simp_thms)
qed

section \<open>Properties of the spawn loops\<close>

lemma seededRandom_exact:
  "seed < 4294967296 \<Longrightarrow> seed * 1664525 + 1013904223 < (2::nat) ^ 53"
  by simp

lemma seededRandom_range:
  "0 \<le> fst (seededRandom seed) \<and> fst (seededRandom seed) < 1 \<and> snd (seededRandom seed) < 4294967296"
  by (simp add: seededRandom_def Let_def)

lemma push_loop_length:
  "length (fst (push_loop body n (ps, g))) = length ps + n"
  by (induction n) (auto split: prod.splits)

lemma ring_loop_length:
  "length ps \<le> count \<Longrightarrow>
   length (fst (ring_loop gaussian count cx cy rr ring pc i (ps, g)))
     = min count (length ps + (pc - i))"
proof (induction "pc - i" arbitrary: i ps g)
  case 0
  then show ?case
    by (simp add: ring_loop.simps[of _ _ _ _ _ _ pc i])
next
  case (Suc k)
  then have i: "i < pc" and k: "k = pc - Suc i"
    by simp_all
  show ?case
  proof (cases "length ps < count")
    case True
    have step: "length (fst (ring_loop gaussian count cx cy rr ring pc (Suc i) (ps @ [p], g')))
        = min count (length (ps @ [p]) + (pc - Suc i))" for p g'
      using True by (intro Suc.hyps(1)[OF k]) simp
    have "ring_loop gaussian count cx cy rr ring pc i (ps, g) =
        (case gaussian 0 (1 / 10) g of (a, g1) \<Rightarrow>
           (let angle = (real i / real pc) * pi * 2 + a
            in (case gaussian 0 (rr * (1 / 10)) g1 of (jitter, g2) \<Rightarrow>
                  ring_loop gaussian count cx cy rr ring pc (Suc i)
                    (ps @ [(cx + cos angle * (rr + jitter),
                            cy + sin angle * (rr + jitter),
                            ring)],
                     g2))))"
      using True i by (subst ring_loop.simps) (simp only: simp_thms if_True)
    then have "length (fst (ring_loop gaussian count cx cy rr ring pc i (ps, g)))
        = min count (length ps + 1 + (pc - Suc i))"
      by (simp only: Let_def step split: prod.splits) simp
    with i show ?thesis
      by simp
  next
    case False
    with Suc.prems show ?thesis
      by (simp add: ring_loop.simps[of _ _ _ _ _ _ pc i])
  qed
qed

lemma rings_fold_length:
  "length ps \<le> count \<Longrightarrow>
   length (fst (fold (\<lambda>ring st. ring_loop gaussian count cx cy (rr ring) ring (pc ring) 0 st)
                  rs (ps, g)))
     = min count (length ps + sum_list (map pc rs))"
proof (induction rs arbitrary: ps g)
  case Nil
  then show ?case by simp
next
  case (Cons r rs)
  obtain ps' g' where st: "ring_loop gaussian count cx cy (rr r) r (pc r) 0 (ps, g) = (ps', g')"
    by (cases "ring_loop gaussian count cx cy (rr r) r (pc r) 0 (ps, g)")
  from ring_loop_length[OF Cons.prems, of gaussian cx cy "rr r" r "pc r" 0 g]
  have l: "length ps' = min count (length ps + pc r)"
    by (simp add: st)
  then have "length ps' \<le> count"
    by simp
  from Cons.IH[OF this, of g'] show ?case
    by (simp add: st l)
qed

lemma particleCount_of_ge:
  assumes "1 \<le> ppr"
  shows "ppr + (3 * ring) div 10 \<le> particleCount_of ppr ring"
proof -
  have "real ((3 * ring) div 10) \<le> real (3 * ring) / real 10"
    by (rule of_nat_div_le_of_nat)
  also have "\<dots> = 1 * (real ring * (3 / 10))"
    by simp
  also have "\<dots> \<le> real ppr * (real ring * (3 / 10))"
    using assms by (intro mult_right_mono) simp_all
  finally have "real (ppr + (3 * ring) div 10) \<le> real ppr * (1 + real ring * (3 / 10))"
    by (simp add: algebra_simps)
  then show ?thesis
    unfolding particleCount_of_def by (rule le_nat_floor)
qed

lemma particleCount_of_zero: "particleCount_of 0 ring = 0"
  by (simp add: particleCount_of_def)

lemma twelve_rings: "[0..<12] = [0, 1, 2, 3, 4, 5, 6, 7, 8, 9, 10, 11::nat]"
  by (simp add: upt_rec)

lemma rings_cover_count:
  assumes "12 \<le> count"
  shows "count \<le> sum_list (map (particleCount_of (count div 12)) [0..<12])"
proof -
  let ?ppr = "count div 12"
  from assms have p: "1 \<le> ?ppr"
    by (simp add: div_greater_zero_iff Suc_le_eq)
  have "count < 12 * ?ppr + 12"
    using div_mult_mod_eq[of count 12] mod_less_divisor[of 12 count] by linarith
  also have "12 * ?ppr + 12 \<le> sum_list (map (\<lambda>ring. ?ppr + (3 * ring) div 10) [0..<12])"
    by (simp add: twelve_rings)
  also have "\<dots> \<le> sum_list (map (particleCount_of ?ppr) [0..<12])"
    by (intro sum_list_mono particleCount_of_ge p)
  finally show ?thesis by simp
qed

lemma generateSpawnPositions_lightfast_length:
  "length (fst (generateSpawnPositions_lightfast rvalue gaussian P width height count g0))
     = (if spawnPattern P = ''radial-burst''
        then min count
               (min count (sum_list (map (particleCount_of (count div 12)) [0..<12]))
                + nat \<lfloor>real count * (1 / 10)\<rfloor>)
        else 0)"
proof (cases "spawnPattern P = ''radial-burst''")
  case False
  then show ?thesis
    by (simp add: generateSpawnPositions_lightfast_def)
next
  case True
  define maxRadius where "maxRadius = min width height * (1 / 2 - margin P)"
  define st1 where "st1 = fold
     (\<lambda>ring st. ring_loop gaussian count (width / 2) (height / 2)
         (maxRadius * (real (ring + 1) / real (12::nat)) powr (7 / 10)) ring
         (particleCount_of (count div 12) ring) 0 st)
     [0..<12] ([], g0)"
  have l1: "length (fst st1) = min count (sum_list (map (particleCount_of (count div 12)) [0..<12]))"
    unfolding st1_def
    using rings_fold_length[of "[]" count gaussian "width / 2" "height / 2"
        "\<lambda>ring. maxRadius * (real (ring + 1) / real (12::nat)) powr (7 / 10)"
        "particleCount_of (count div 12)" "[0..<12]" g0]
    by simp
  obtain ps1 g1 where s: "st1 = (ps1, g1)"
    by (cases st1)
  define body where "body = (\<lambda>(i::nat) g.
      (case rvalue g of (u, g1) \<Rightarrow>
         (let r = u * maxRadius * (3 / 10)
          in (case rvalue g1 of (v, g2) \<Rightarrow>
                (let theta = v * pi * 2
                 in ((width / 2 + cos theta * r, height / 2 + sin theta * r, 0::nat),
                     g2))))))"
  have l2: "length (fst (push_loop body (nat \<lfloor>real count * (1 / 10)\<rfloor>) st1))
      = length ps1 + nat \<lfloor>real count * (1 / 10)\<rfloor>"
    unfolding s by (rule push_loop_length)
  have "generateSpawnPositions_lightfast rvalue gaussian P width height count g0 =
      (case push_loop body (nat \<lfloor>real count * (1 / 10)\<rfloor>) st1 of
         (positions, g) \<Rightarrow> (take count positions, g))"
    using True
    unfolding generateSpawnPositions_lightfast_def Let_def maxRadius_def st1_def body_def
    by simp
  then have "length (fst (generateSpawnPositions_lightfast rvalue gaussian P width height count g0))
      = min count (length (fst (push_loop body (nat \<lfloor>real count * (1 / 10)\<rfloor>) st1)))"
    by (simp add: split_beta min.commute)
  with l1 l2 s True show ?thesis
    by simp
qed

lemma generateSpawnPositions_flowfield_length:
  "length (fst (generateSpawnPositions_flowfield rvalue gaussian P width height count m g0)) = count"
  by (simp add: generateSpawnPositions_flowfield_def Let_def push_loop_length)

lemma lightfast_small_count:
  assumes "count < 10"
  shows "fst (generateSpawnPositions_lightfast rvalue gaussian P width height count g0) = []"
proof -
  from assms have "count div 12 = 0" "nat \<lfloor>real count * (1 / 10)\<rfloor> = 0"
    by (simp_all add: floor_eq_iff)
  then have "length (fst (generateSpawnPositions_lightfast rvalue gaussian P width height count g0)) = 0"
    by (simp add: generateSpawnPositions_lightfast_length particleCount_of_zero twelve_rings)
  then show ?thesis by simp
qed

section \<open>Degenerate configurations of the icon tracer\<close>

lemma traceLine_zero_step:
  assumes "stepSize P = 0" and "width \<noteq> 0 \<or> height \<noteq> 0"
    and "in_bounds (bounds_icon P width height) (Pt sx sy)"
  shows "traceLine P sx sy width height = Inr (replicate (lineLength P) (Pt sx sy))"
proof -
  have "advance (getFlowAngle_export_icon_at P width height) (stepSize P) (Pt sx sy)
      = Inr (Pt sx sy)"
    by (simp add: advance_def getFlowAngle_export_icon_at_def
        getFlowAngle_export_icon_formula[OF assms(2)] assms(1))
  moreover from assms(3) have "\<not> outside (bounds_icon P width height) (Pt sx sy)"
    by (simp only: not_outside_iff)
  ultimately show ?thesis
    unfolding traceLine_def by (rule trace_loop_fixed)
qed

lemma traceLine_zero_region:
  assumes "margin P = 1 / 2" and "0 < stepSize P" and "width \<noteq> 0" and "0 < lineLength P"
  shows "traceLine P (width / 2) (width / 2) width width = Inr [Pt (width / 2) (width / 2)]"
proof -
  from assms(3) have w: "width \<noteq> 0 \<or> width \<noteq> 0"
    by simp
  have "getFlowAngle_export_icon P (width / 2) (width / 2) width width = Num 0"
    by (simp add: getFlowAngle_export_icon_formula[OF w] normalizedDistance_centre atan2_def)
  then have adv: "advance (getFlowAngle_export_icon_at P width width) (stepSize P)
      (Pt (width / 2) (width / 2)) = Inr (Pt (width / 2 + stepSize P) (width / 2))"
    by (simp add: advance_def getFlowAngle_export_icon_at_def)
  have "width - width * (1 / 2) < width / 2 + stepSize P"
    using assms(2) by simp
  then have out: "outside (bounds_icon P width width) (Pt (width / 2 + stepSize P) (width / 2))"
    unfolding bounds_icon_def Let_def assms(1) by simp
  from assms(4) obtain n where n: "lineLength P = Suc n"
    by (cases "lineLength P") auto
  show ?thesis
    unfolding traceLine_def n trace_loop.simps adv using out by simp
qed

section \<open>Claims about the spawn positions\<close>

text \<open>
  C5, as amended. \<open>generateSpawnPositions\<close> of the flow-field sketch returns exactly
  \<open>count\<close> positions for every pattern and every count. \<open>generateSpawnPositions\<close> of
  \<open>sketch-lightfast.js\<close> returns at most \<open>count\<close> positions (it truncates), and
  exactly \<open>count\<close> for the pattern \<open>radial-burst\<close> when \<open>count \<ge> 12\<close>; it has no way
  to fill up a set that comes out short.
\<close>

theorem spawn_count:
  "length (fst (generateSpawnPositions_flowfield rvalue gaussian P width height count m g0)) = count
   \<and> length (fst (generateSpawnPositions_lightfast rvalue gaussian P width height count g0)) \<le> count
   \<and> (spawnPattern P = ''radial-burst'' \<and> 12 \<le> count \<longrightarrow>
        length (fst (generateSpawnPositions_lightfast rvalue gaussian P width height count g0)) = count)"
proof (intro conjI impI)
  show "length (fst (generateSpawnPositions_flowfield rvalue gaussian P width height count m g0)) = count"
    by (rule generateSpawnPositions_flowfield_length)
  show "length (fst (generateSpawnPositions_lightfast rvalue gaussian P width height count g0)) \<le> count"
    by (simp add: generateSpawnPositions_lightfast_length)
  assume "spawnPattern P = ''radial-burst'' \<and> 12 \<le> count"
  then show "length (fst (generateSpawnPositions_lightfast rvalue gaussian P width height count g0)) = count"
    using rings_cover_count[of count]
    by (simp add: generateSpawnPositions_lightfast_length)
qed

theorem spawn_count_witness:
  "length (fst (generateSpawnPositions_lightfast seededRandom (\<lambda>mean sd g. (mean, g))
             params_lightfast 1024 1024 600 54321)) = 600
   \<and> length (fst (generateSpawnPositions_flowfield seededRandom (\<lambda>mean sd g. (mean, g))
             params_flowfield 1024 1024 800 (1 / 10) 54321)) = 800"
proof -
  have "spawnPattern params_lightfast = ''radial-burst'' \<and> (12::nat) \<le> 600"
    by (simp add: params_lightfast_def)
  then show ?thesis
    using spawn_count[of seededRandom "\<lambda>mean sd g. (mean, g)" params_lightfast 1024 1024 600 _ 54321]
      spawn_count[of seededRandom "\<lambda>mean sd g. (mean, g)" params_flowfield 1024 1024 800 "1 / 10" 54321]
    by blast
qed

text \<open>
  C5 as stated fails for \<open>radial-burst\<close> with a small count: each of the 12 rings gets
  \<open>floor(count / 12)\<close> particles scaled up, which is none for \<open>count < 12\<close>, and the
  centre fill adds \<open>floor(count * 0.1)\<close>. For \<open>count = 1\<close> the result is empty.
\<close>

theorem radial_burst_one_is_empty:
  "fst (generateSpawnPositions_lightfast seededRandom (\<lambda>mean sd g. (mean, g))
          params_lightfast 1024 1024 1 54321) = []"
  by (rule lightfast_small_count) simp

text \<open>
  C6: the code does not special-case the grid of one point. With \<open>count = 1\<close> there is
  one column and one row, the point has \<open>col = 0\<close> and \<open>row = 0\<close>, and both
  \<open>col / (cols - 1)\<close> and \<open>row / (rows - 1)\<close> are \<open>0 / 0\<close>: on every canvas and for
  every margin the single position is \<open>(NaN, NaN)\<close>.
\<close>

theorem grid_single_point_is_NaN:
  "fst (generateSpawnPositions_flowfield rvalue gaussian (P\<lparr>spawnPattern := ''grid''\<rparr>)
          width height 1 m g0) = [(NaN, NaN)]"
  by (simp add: generateSpawnPositions_flowfield_def Let_def js_div_def)

text \<open>
  The grid of four points on the region \<open>[0, 10] x [0, 10]\<close>: the four corners, row by
  row.
\<close>

lemma grid_four_corners:
  "fst (generateSpawnPositions_flowfield rvalue gaussian (P\<lparr>spawnPattern := ''grid''\<rparr>)
          10 10 4 0 g0)
     = [(Num 0, Num 0), (Num 10, Num 0), (Num 0, Num 10), (Num 10, Num 10)]"
proof -
  have "sqrt 4 = 2"
    using real_sqrt_abs[of 2] by simp
  then show ?thesis
    by (simp add: generateSpawnPositions_flowfield_def Let_def js_div_def eval_nat_numeral)
qed

text \<open>With \<open>count = 2\<close> there is one row as well, and \<open>y\<close> is \<open>NaN\<close> for both points.\<close>

lemma ceiling_sqrt_2: "\<lceil>sqrt 2\<rceil> = 2"
proof -
  have "1 < sqrt 2"
    by simp
  moreover have "sqrt 2 \<le> sqrt 4"
    by (simp only: real_sqrt_le_iff)
  moreover have "sqrt 4 = 2"
    using real_sqrt_abs[of 2] by simp
  ultimately show ?thesis
    by (simp add: ceiling_eq_iff)
qed

lemma grid_two_points:
  "fst (generateSpawnPositions_flowfield rvalue gaussian (P\<lparr>spawnPattern := ''grid''\<rparr>)
          width height 2 m g0)
     = [(Num (width * m), NaN), (Num (width * m + width * (1 - m * 2)), NaN)]"
  by (simp add: generateSpawnPositions_flowfield_def Let_def js_div_def eval_nat_numeral
      ceiling_sqrt_2)

section \<open>Claims about configuration errors\<close>

text \<open>
  C9, as amended. Malformed configurations of these kinds are not rejected but
  traced: with step size 0, on a canvas that is not
  0 x 0 and from a start within the bounds, \<open>traceLine\<close> returns \<open>lineLength\<close> copies
  of the start. With a bounding region of size zero (margin 1/2 on a square canvas) and
  a positive step, it returns the start alone. With fewer than 10 requested positions
  for the 12 rings of \<open>radial-burst\<close>, \<open>generateSpawnPositions\<close> returns the empty
  list. \<open>traceLine\<close> of \<open>export-icon.js\<close> never fails. A runtime trace failure does
  exist in the two sketches on the noise library: where the flow angle is not finite
  (flow-field sketch: octave amplitudes that sum to zero, with at least one octave;
  \<open>sketch-lightfast.js\<close>: a 0 x 0 canvas) and \<open>lineLength \<ge> 2\<close>, the cursor becomes
  \<open>NaN\<close> and the library throws a \<open>TypeError\<close> in the second iteration.
\<close>

theorem malformed_configuration_accepted:
  "(stepSize P = 0 \<and> (width \<noteq> 0 \<or> height \<noteq> 0)
      \<and> in_bounds (bounds_icon P width height) (Pt startX startY) \<longrightarrow>
    traceLine P startX startY width height = Inr (replicate (lineLength P) (Pt startX startY)))
   \<and> (margin P = 1 / 2 \<and> 0 < stepSize P \<and> width \<noteq> 0 \<and> 0 < lineLength P \<longrightarrow>
    traceLine P (width / 2) (width / 2) width width = Inr [Pt (width / 2) (width / 2)])
   \<and> (count < 10 \<longrightarrow>
    fst (generateSpawnPositions_lightfast rvalue gaussian P width height count g0) = [])
   \<and> (\<exists>ps. traceLine P startX startY width height = Inr ps)
   \<and> ((\<Sum>i<flowOctaves P. flowPersistence P ^ i) = 0 \<and> 1 \<le> flowOctaves P
      \<and> 2 \<le> lineLength P \<longrightarrow>
    traceFlowLine_flowfield noise3D P startX startY width height m = Inl TypeError)
   \<and> (2 \<le> lineLength P \<longrightarrow>
    traceFlowLine_lightfast noise P startX startY 0 0 = Inl TypeError)"
proof (intro conjI impI)
  assume "stepSize P = 0 \<and> (width \<noteq> 0 \<or> height \<noteq> 0)
      \<and> in_bounds (bounds_icon P width height) (Pt startX startY)"
  then show "traceLine P startX startY width height
      = Inr (replicate (lineLength P) (Pt startX startY))"
    by (intro traceLine_zero_step) simp_all
next
  assume "margin P = 1 / 2 \<and> 0 < stepSize P \<and> width \<noteq> 0 \<and> 0 < lineLength P"
  then show "traceLine P (width / 2) (width / 2) width width = Inr [Pt (width / 2) (width / 2)]"
    by (intro traceLine_zero_region) simp_all
next
  assume "count < 10"
  then show "fst (generateSpawnPositions_lightfast rvalue gaussian P width height count g0) = []"
    by (rule lightfast_small_count)
next
  show "\<exists>ps. traceLine P startX startY width height = Inr ps"
    by (rule traceLine_returns)
next
  assume "(\<Sum>i<flowOctaves P. flowPersistence P ^ i) = 0 \<and> 1 \<le> flowOctaves P
      \<and> 2 \<le> lineLength P"
  then show "traceFlowLine_flowfield noise3D P startX startY width height m = Inl TypeError"
    by (intro traceFlowLine_flowfield_throws) simp_all
next
  assume "2 \<le> lineLength P"
  then show "traceFlowLine_lightfast noise P startX startY 0 0 = Inl TypeError"
    by (rule traceFlowLine_lightfast_throws)
qed

theorem malformed_configuration_accepted_witness:
  "traceLine (params_export_icon\<lparr>stepSize := 0\<rparr>) 100 300 512 512
       = Inr (replicate 35 (Pt 100 300))
   \<and> traceLine (params_export_icon\<lparr>margin := 1 / 2\<rparr>) (1024 / 2) (1024 / 2) 1024 1024
       = Inr [Pt (1024 / 2) (1024 / 2)]
   \<and> fst (generateSpawnPositions_lightfast seededRandom (\<lambda>mean sd g. (mean, g))
            params_lightfast 1024 1024 9 54321) = []
   \<and> traceFlowLine_flowfield (\<lambda>x y t. 0)
        (params_flowfield\<lparr>flowOctaves := 4, flowPersistence := - 1\<rparr>) 300 300 1024 1024 (1 / 10)
       = Inl TypeError
   \<and> traceFlowLine_lightfast (\<lambda>x y. 0) params_lightfast 0 0 0 0 = Inl TypeError"
proof -
  have h1: "stepSize (params_export_icon\<lparr>stepSize := 0\<rparr>) = 0 \<and> ((512::real) \<noteq> 0 \<or> (512::real) \<noteq> 0)
      \<and> in_bounds (bounds_icon (params_export_icon\<lparr>stepSize := 0\<rparr>) 512 512) (Pt 100 300)"
    by (simp add: params_export_icon_def bounds_icon_def Let_def)
  have h2: "margin (params_export_icon\<lparr>margin := 1 / 2\<rparr>) = 1 / 2
      \<and> 0 < stepSize (params_export_icon\<lparr>margin := 1 / 2\<rparr>) \<and> (1024::real) \<noteq> 0
      \<and> 0 < lineLength (params_export_icon\<lparr>margin := 1 / 2\<rparr>)"
    by (simp add: params_export_icon_def)
  have l: "lineLength (params_export_icon\<lparr>stepSize := 0\<rparr>) = 35"
    by (simp add: params_export_icon_def)
  have h3: "(9::nat) < 10"
    by simp
  have sel: "flowOctaves (params_flowfield\<lparr>flowOctaves := 4, flowPersistence := - 1\<rparr>)
        = Suc (Suc (Suc (Suc 0)))"
    "flowPersistence (params_flowfield\<lparr>flowOctaves := 4, flowPersistence := - 1\<rparr>) = - 1"
    "lineLength (params_flowfield\<lparr>flowOctaves := 4, flowPersistence := - 1\<rparr>) = 80"
    by (simp_all add: params_flowfield_def)
  have h5: "(\<Sum>i<flowOctaves (params_flowfield\<lparr>flowOctaves := 4, flowPersistence := - 1\<rparr>).
        flowPersistence (params_flowfield\<lparr>flowOctaves := 4, flowPersistence := - 1\<rparr>) ^ i) = 0
      \<and> 1 \<le> flowOctaves (params_flowfield\<lparr>flowOctaves := 4, flowPersistence := - 1\<rparr>)
      \<and> 2 \<le> lineLength (params_flowfield\<lparr>flowOctaves := 4, flowPersistence := - 1\<rparr>)"
    unfolding sel by simp
  have h6: "2 \<le> lineLength params_lightfast"
    by (simp add: params_lightfast_def)
  have "traceLine (params_export_icon\<lparr>stepSize := 0\<rparr>) 100 300 512 512
      = Inr (replicate (lineLength (params_export_icon\<lparr>stepSize := 0\<rparr>)) (Pt 100 300))"
    using malformed_configuration_accepted
        [where P = "params_export_icon\<lparr>stepSize := 0\<rparr>" and width = 512 and height = 512
          and startX = 100 and startY = 300, THEN conjunct1] h1
    by (rule mp)
  moreover have "traceLine (params_export_icon\<lparr>margin := 1 / 2\<rparr>) (1024 / 2) (1024 / 2) 1024 1024
       = Inr [Pt (1024 / 2) (1024 / 2)]"
    using malformed_configuration_accepted
        [where P = "params_export_icon\<lparr>margin := 1 / 2\<rparr>" and width = 1024,
          THEN conjunct2, THEN conjunct1] h2
    by (rule mp)
  moreover have "fst (generateSpawnPositions_lightfast seededRandom (\<lambda>mean sd g. (mean, g))
            params_lightfast 1024 1024 9 54321) = []"
    using malformed_configuration_accepted
        [where P = params_lightfast and width = 1024 and height = 1024 and count = 9
          and rvalue = seededRandom and gaussian = "\<lambda>mean sd g. (mean, g)" and ?g0.0 = 54321,
          THEN conjunct2, THEN conjunct2, THEN conjunct1] h3
    by (rule mp)
  moreover have "traceFlowLine_flowfield (\<lambda>x y t. 0)
        (params_flowfield\<lparr>flowOctaves := 4, flowPersistence := - 1\<rparr>) 300 300 1024 1024 (1 / 10)
       = Inl TypeError"
    using malformed_configuration_accepted
        [where P = "params_flowfield\<lparr>flowOctaves := 4, flowPersistence := - 1\<rparr>"
          and noise3D = "\<lambda>x y t. 0" and startX = 300 and startY = 300 and width = 1024
          and height = 1024 and m = "1 / 10",
          THEN conjunct2, THEN conjunct2, THEN conjunct2, THEN conjunct2, THEN conjunct1] h5
    by (rule mp)
  moreover have "traceFlowLine_lightfast (\<lambda>x y. 0) params_lightfast 0 0 0 0 = Inl TypeError"
    using malformed_configuration_accepted
        [where P = params_lightfast and noise = "\<lambda>x y. 0" and startX = 0 and startY = 0,
          THEN conjunct2, THEN conjunct2, THEN conjunct2, THEN conjunct2, THEN conjunct2] h6
    by (rule mp)
  ultimately show ?thesis
    by (simp only: l simp_thms)
qed

text \<open>
  C9 as stated fails on both counts. No configuration is rejected: the table of
  \<open>export-icon.js\<close> with \<open>stepSize = 0\<close> gives 35 copies of the start, with
  \<open>margin = 0.5\<close> (a bounding region of size zero) the start alone, and five positions
  requested of the 12 rings of \<open>sketch-lightfast.js\<close> give none; each call returns a
  value. And a runtime trace failure exists: with two octaves of persistence \<open>-1\<close> the
  flow-field tracer throws a \<open>TypeError\<close>, whatever the noise.
\<close>

theorem malformed_configuration_returns:
  "traceLine (params_export_icon\<lparr>stepSize := 0\<rparr>) 256 256 512 512
       = Inr (replicate 35 (Pt 256 256))
   \<and> traceLine (params_export_icon\<lparr>margin := 1 / 2\<rparr>) 256 256 512 512 = Inr [Pt 256 256]
   \<and> fst (generateSpawnPositions_lightfast seededRandom (\<lambda>mean sd g. (mean, g))
            params_lightfast 1024 1024 5 54321) = []
   \<and> (\<forall>noise3D. traceFlowLine_flowfield noise3D
          (params_flowfield\<lparr>flowOctaves := 2, flowPersistence := - 1\<rparr>) 512 512 1024 1024 (1 / 10)
        = Inl TypeError)"
proof -
  have "traceLine (params_export_icon\<lparr>stepSize := 0\<rparr>) 256 256 512 512
      = Inr (replicate (lineLength (params_export_icon\<lparr>stepSize := 0\<rparr>)) (Pt 256 256))"
    by (rule traceLine_zero_step) (simp_all add: params_export_icon_def bounds_icon_def Let_def)
  moreover have "traceLine (params_export_icon\<lparr>margin := 1 / 2\<rparr>) (512 / 2) (512 / 2) 512 512
      = Inr [Pt (512 / 2) (512 / 2)]"
    by (rule traceLine_zero_region) (simp_all add: params_export_icon_def)
  moreover have "fst (generateSpawnPositions_lightfast seededRandom (\<lambda>mean sd g. (mean, g))
            params_lightfast 1024 1024 5 54321) = []"
    by (rule lightfast_small_count) simp
  moreover have "lineLength (params_export_icon\<lparr>stepSize := 0\<rparr>) = 35"
    by (simp add: params_export_icon_def)
  moreover have "(512::real) / 2 = 256"
    by simp
  moreover have "traceFlowLine_flowfield noise3D
        (params_flowfield\<lparr>flowOctaves := 2, flowPersistence := - 1\<rparr>) 512 512 1024 1024 (1 / 10)
      = Inl TypeError" for noise3D
  proof -
    have sel: "flowOctaves (params_flowfield\<lparr>flowOctaves := 2, flowPersistence := - 1\<rparr>) = Suc (Suc 0)"
      "flowPersistence (params_flowfield\<lparr>flowOctaves := 2, flowPersistence := - 1\<rparr>) = - 1"
      "lineLength (params_flowfield\<lparr>flowOctaves := 2, flowPersistence := - 1\<rparr>) = 80"
      by (simp_all add: params_flowfield_def)
    show ?thesis
      by (rule traceFlowLine_flowfield_throws) (simp_all add: sel)
  qed
  ultimately show ?thesis
    by (simp only: simp_thms)
qed

end
